theory Spec2Isabelle
  imports Main
begin

section \<open>JavaScript strings\<close>

text \<open>
  A JavaScript string is modelled as an Isabelle \<open>string\<close>: a list of code units below
  256. On that fragment every operation below computes what the JavaScript builtin of the
  same name computes.
\<close>

definition js_startsWith :: "string \<Rightarrow> string \<Rightarrow> bool" where
  "js_startsWith s p = (take (length p) s = p)"

fun js_includes :: "string \<Rightarrow> string \<Rightarrow> bool" where
  "js_includes [] p = (p = [])"
| "js_includes (c # cs) p = (js_startsWith (c # cs) p \<or> js_includes cs p)"

text \<open>\<open>s.replace(p, r)\<close> with a string pattern: the first occurrence only.\<close>

fun js_replace_first :: "string \<Rightarrow> string \<Rightarrow> string \<Rightarrow> string" where
  "js_replace_first p r [] = (if p = [] then r else [])"
| "js_replace_first p r (c # cs) =
     (if js_startsWith (c # cs) p then r @ drop (length p) (c # cs)
      else c # js_replace_first p r cs)"

text \<open>\<open>s.replace(/-/g, "_")\<close>: every hyphen becomes an underscore.\<close>

definition replace_hyphens :: "string \<Rightarrow> string" where
  "replace_hyphens s = map (\<lambda>c. if c = CHR ''-'' then CHR ''_'' else c) s"

text \<open>\<open>xs.join(sep)\<close>.\<close>

fun js_join :: "string \<Rightarrow> string list \<Rightarrow> string" where
  "js_join sep [] = []"
| "js_join sep [x] = x"
| "js_join sep (x # y # ys) = x @ sep @ js_join sep (y # ys)"

text \<open>White space and line terminators below 256, as \<open>trim\<close> and \<open>\s\<close> see them.\<close>

definition js_whitespace :: "char \<Rightarrow> bool" where
  "js_whitespace c = ((of_char c :: nat) \<in> {9, 10, 11, 12, 13, 32, 160})"

definition js_trim :: "string \<Rightarrow> string" where
  "js_trim s = rev (dropWhile js_whitespace (rev (dropWhile js_whitespace s)))"

definition is_digit :: "char \<Rightarrow> bool" where
  "is_digit c = (48 \<le> (of_char c :: nat) \<and> (of_char c :: nat) \<le> 57)"

subsection \<open>encodeURIComponent\<close>

text \<open>
  The unreserved characters \<open>A-Z a-z 0-9 - _ . ! ~ * ' ( )\<close> are kept; every other
  code unit is written as the percent-escapes of its UTF-8 bytes (one byte below 128, two
  bytes from 128 to 255).
\<close>

definition uri_unreserved :: "char \<Rightarrow> bool" where
  "uri_unreserved c =
     (let n = (of_char c :: nat) in
      (65 \<le> n \<and> n \<le> 90) \<or> (97 \<le> n \<and> n \<le> 122) \<or> (48 \<le> n \<and> n \<le> 57) \<or>
      n \<in> {45, 95, 46, 33, 126, 42, 39, 40, 41})"

definition hex_digit :: "nat \<Rightarrow> char" where
  "hex_digit n = ''0123456789ABCDEF'' ! (n mod 16)"

definition percent_byte :: "nat \<Rightarrow> string" where
  "percent_byte n = [CHR ''%'', hex_digit (n div 16), hex_digit n]"

definition encode_unit :: "char \<Rightarrow> string" where
  "encode_unit c =
     (let n = (of_char c :: nat) in
      if uri_unreserved c then [c]
      else if n < 128 then percent_byte n
      else percent_byte (192 + n div 64) @ percent_byte (128 + n mod 64))"

definition encodeURIComponent :: "string \<Rightarrow> string" where
  "encodeURIComponent s = concat (map encode_unit s)"

text \<open>The characters of a percent-escape.\<close>

definition escape_char :: "char \<Rightarrow> bool" where
  "escape_char c = (c = CHR ''%'' \<or> c \<in> set ''0123456789ABCDEF'')"

section \<open>The image proxy URL\<close>

definition PROXY_BASE_URL :: string where
  "PROXY_BASE_URL = ''http://localhost:8080/api/proxy/resource''"

text \<open>
  The \<open>options\<close> object of \<open>constructProxyUrl\<close>. A field that is absent reads as
  \<open>undefined\<close> (\<open>None\<close>); \<open>if (options.referer)\<close> holds for a present, non-empty string.
\<close>

record proxy_options =
  referer :: "string option"
  userAgent :: "string option"
  origin :: "string option"

definition no_options :: proxy_options where
  "no_options = \<lparr>referer = None, userAgent = None, origin = None\<rparr>"

definition truthy_str :: "string option \<Rightarrow> bool" where
  "truthy_str v = (case v of None \<Rightarrow> False | Some s \<Rightarrow> s \<noteq> [])"

text \<open>
  \<open>constructProxyUrl\<close> of the WeebCentral and Webtoons plugins (the two copies are the
  same text): \<open>params\<close> starts as \<open>["url=" + encodeURIComponent(imageUrl)]\<close>, one entry
  is pushed per truthy option, and the entries are joined with \<open>&\<close>.
\<close>

definition constructProxyUrl :: "string \<Rightarrow> proxy_options \<Rightarrow> string" where
  "constructProxyUrl imageUrl options =
     (let params = [''url='' @ encodeURIComponent imageUrl];
          params = (if truthy_str (referer options)
                    then params @ [''referer='' @ encodeURIComponent (the (referer options))]
                    else params);
          params = (if truthy_str (userAgent options)
                    then params @ [''user-agent='' @ encodeURIComponent (the (userAgent options))]
                    else params);
          params = (if truthy_str (origin options)
                    then params @ [''origin='' @ encodeURIComponent (the (origin options))]
                    else params)
      in PROXY_BASE_URL @ ''?'' @ js_join ''&'' params)"

text \<open>
  \<open>constructProxyUrl\<close> of the MangaDex plugin: of its \<open>options\<close> it reads the field
  \<open>referer\<close> and no other; \<open>userAgent\<close> and \<open>origin\<close> add nothing to the URL,
  whatever a caller passes.
\<close>

definition mangadex_constructProxyUrl :: "string \<Rightarrow> proxy_options \<Rightarrow> string" where
  "mangadex_constructProxyUrl imageUrl options =
     (let params = [''url='' @ encodeURIComponent imageUrl];
          params = (if truthy_str (referer options)
                    then params @ [''referer='' @ encodeURIComponent (the (referer options))]
                    else params)
      in PROXY_BASE_URL @ ''?'' @ js_join ''&'' params)"

section \<open>WeebCentral: cleanChapterNumber\<close>

text \<open>\<open>chapterStr.replace(/^0+/, "")\<close>: the run of \<open>0\<close> at the start of the string is removed.\<close>

fun strip_leading_zeros :: "string \<Rightarrow> string" where
  "strip_leading_zeros [] = []"
| "strip_leading_zeros (c # cs) = (if c = CHR ''0'' then strip_leading_zeros cs else c # cs)"

definition cleanChapterNumber :: "string \<Rightarrow> string" where
  "cleanChapterNumber chapterStr =
     (let cleaned = strip_leading_zeros chapterStr in
      if cleaned = [] then ''0'' else cleaned)"

section \<open>JavaScript values, errors and the injected collaborators\<close>

text \<open>
  What \<open>response.data\<close> holds after JSON parsing. A number is kept as the string that
  \<open>String\<close> gives for it (\<open>95\<close>, \<open>-1.5\<close>, \<open>1e+21\<close>, \<open>NaN\<close>), which determines it up to
  the sign of zero; the plugins read a number through \<open>String\<close>, its truth value and
  \<open>=== 0\<close> only, and these do not tell the two zeros apart. \<open>JUndefined\<close> is what
  reading an absent property gives. An object is an association list in insertion order; a later entry for the same
  key overwrites an earlier one.
\<close>

datatype json =
    JUndefined
  | JNull
  | JBool bool
  | JNum string
  | JStr string
  | JArr "json list"
  | JObj "(string \<times> json) list"

text \<open>
  What a call can throw: \<open>new Error(message)\<close>, the engine's own \<open>TypeError\<close> (reading
  a property of \<open>null\<close> or \<open>undefined\<close>, calling or iterating what is neither function
  nor iterable) and \<open>RangeError\<close> (\<open>toISOString\<close> of an invalid date), and
  \<open>new Error(prefix + error.message)\<close> of a caught error.
\<close>

datatype error =
    Error string
  | TypeError
  | RangeError
  | Wrapped string error

fun truthy :: "json \<Rightarrow> bool" where
  "truthy JUndefined = False"
| "truthy JNull = False"
| "truthy (JBool b) = b"
| "truthy (JNum n) = (n \<noteq> ''0'' \<and> n \<noteq> ''NaN'')"
| "truthy (JStr s) = (s \<noteq> [])"
| "truthy (JArr xs) = True"
| "truthy (JObj kvs) = True"

definition nullish :: "json \<Rightarrow> bool" where
  "nullish v = (v = JUndefined \<or> v = JNull)"

text \<open>\<open>a || b\<close>.\<close>

definition js_or :: "json \<Rightarrow> json \<Rightarrow> json" where
  "js_or a b = (if truthy a then a else b)"

definition isArray :: "json \<Rightarrow> bool" where
  "isArray v = (case v of JArr xs \<Rightarrow> True | _ \<Rightarrow> False)"

text \<open>\<open>typeof v === "object"\<close> (which also holds for \<open>null\<close> and arrays).\<close>

definition typeof_object :: "json \<Rightarrow> bool" where
  "typeof_object v = (case v of JNull \<Rightarrow> True | JArr xs \<Rightarrow> True | JObj kvs \<Rightarrow> True | _ \<Rightarrow> False)"

subsection \<open>Decimal numerals\<close>

definition digit_char :: "nat \<Rightarrow> char" where
  "digit_char n = char_of (48 + n mod 10)"

fun show_nat :: "nat \<Rightarrow> string" where
  "show_nat n = (if n < 10 then [digit_char n] else show_nat (n div 10) @ [digit_char n])"

declare show_nat.simps [simp del]

definition show_int :: "int \<Rightarrow> string" where
  "show_int i = (if i < 0 then CHR ''-'' # show_nat (nat (- i)) else show_nat (nat i))"

definition dec_value :: "string \<Rightarrow> nat" where
  "dec_value s = foldl (\<lambda>acc c. 10 * acc + ((of_char c :: nat) - 48)) 0 s"

text \<open>The order of two decimal numerals of the same length.\<close>

fun digits_less :: "string \<Rightarrow> string \<Rightarrow> bool" where
  "digits_less (a # as) (b # bs) =
     ((of_char a :: nat) < of_char b \<or> (a = b \<and> digits_less as bs))"
| "digits_less as bs = False"

text \<open>
  A property key that is an array index: a decimal numeral with no leading zero, of a
  number below \<open>2\<^sup>3\<^sup>2 - 1 = 4294967295\<close>.
\<close>

definition is_index_key :: "string \<Rightarrow> bool" where
  "is_index_key k =
     (k \<noteq> [] \<and> list_all is_digit k \<and> (k = ''0'' \<or> hd k \<noteq> CHR ''0'') \<and>
      (length k < 10 \<or> (length k = 10 \<and> digits_less k ''4294967295'')))"

subsection \<open>Property access, keys, iteration, conversion to string\<close>

text \<open>
  \<open>v.k\<close> and \<open>v[k]\<close> for a receiver that is not \<open>null\<close> or \<open>undefined\<close>. Arrays and
  strings have \<open>length\<close>, arrays their indices; the code reads no other property of a
  primitive, which gives \<open>undefined\<close>.
\<close>

definition js_prop :: "json \<Rightarrow> string \<Rightarrow> json" where
  "js_prop v k =
     (case v of
        JObj kvs \<Rightarrow> (case map_of (rev kvs) k of None \<Rightarrow> JUndefined | Some x \<Rightarrow> x)
      | JArr xs \<Rightarrow>
          (if k = ''length'' then JNum (show_nat (length xs))
           else if is_index_key k \<and> dec_value k < length xs then xs ! dec_value k
           else JUndefined)
      | JStr s \<Rightarrow> (if k = ''length'' then JNum (show_nat (length s)) else JUndefined)
      | _ \<Rightarrow> JUndefined)"

text \<open>\<open>v.k\<close> for any receiver: a \<open>TypeError\<close> on \<open>null\<close> and \<open>undefined\<close>.\<close>

definition js_get :: "json \<Rightarrow> string \<Rightarrow> error + json" where
  "js_get v k = (if nullish v then Inl TypeError else Inr (js_prop v k))"

text \<open>\<open>v?.k\<close>.\<close>

definition js_opt_get :: "json \<Rightarrow> string \<Rightarrow> json" where
  "js_opt_get v k = (if nullish v then JUndefined else js_prop v k)"

text \<open>
  \<open>Object.keys(v)\<close> of an object or array: index keys first, ascending, then the other
  keys in insertion order.
\<close>

definition js_keys :: "json \<Rightarrow> string list" where
  "js_keys v =
     (case v of
        JObj kvs \<Rightarrow>
          (let ks = rev (remdups (rev (map fst kvs)))
           in sort_key dec_value (filter is_index_key ks) @ filter (\<lambda>k. \<not> is_index_key k) ks)
      | JArr xs \<Rightarrow> map show_nat [0..<length xs]
      | _ \<Rightarrow> [])"

text \<open>\<open>for (const x of v)\<close>: the elements of an array, the characters of a string.\<close>

definition js_iter :: "json \<Rightarrow> error + json list" where
  "js_iter v =
     (case v of
        JArr xs \<Rightarrow> Inr xs
      | JStr s \<Rightarrow> Inr (map (\<lambda>c. JStr [c]) s)
      | _ \<Rightarrow> Inl TypeError)"

text \<open>\<open>String(v)\<close> and \<open>`${v}`\<close>.\<close>

fun js_toString :: "json \<Rightarrow> string" where
  "js_toString JUndefined = ''undefined''"
| "js_toString JNull = ''null''"
| "js_toString (JBool b) = (if b then ''true'' else ''false'')"
| "js_toString (JNum n) = n"
| "js_toString (JStr s) = s"
| "js_toString (JArr xs) =
     js_join '','' (map (\<lambda>x. if x = JUndefined \<or> x = JNull then [] else js_toString x) xs)"
| "js_toString (JObj kvs) = ''[object Object]''"

text \<open>
  Key equality of a \<open>Map\<close>: primitives by value, arrays and objects by identity (two
  parsed values are never the same object).
\<close>

definition same_value :: "json \<Rightarrow> json \<Rightarrow> bool" where
  "same_value a b = (\<not> isArray a \<and> (case a of JObj kvs \<Rightarrow> False | _ \<Rightarrow> True) \<and> a = b)"

fun map_get :: "(json \<times> json) list \<Rightarrow> json \<Rightarrow> json option" where
  "map_get [] k = None"
| "map_get ((k', v) # m) k = (if same_value k' k then Some v else map_get m k)"

text \<open>The elements of an array (nothing for any other value).\<close>

definition array_items :: "json \<Rightarrow> json list" where
  "array_items v = (case v of JArr xs \<Rightarrow> xs | _ \<Rightarrow> [])"

text \<open>Running a callback that may throw over a list, left to right.\<close>

fun mapE :: "('a \<Rightarrow> error + 'b) \<Rightarrow> 'a list \<Rightarrow> error + 'b list" where
  "mapE f [] = Inr []"
| "mapE f (x # xs) =
     (case f x of
        Inl e \<Rightarrow> Inl e
      | Inr y \<Rightarrow> (case mapE f xs of Inl e \<Rightarrow> Inl e | Inr ys \<Rightarrow> Inr (y # ys)))"

text \<open>How one round of a \<open>while\<close> loop ends: \<open>break\<close>, the next round, or \<open>throw\<close>.\<close>

datatype 'a round = Break 'a | Next 'a | Throw error

subsection \<open>HTTP and the environment of a call\<close>

datatype request = GET string | POST string string

text \<open>
  The response object of \<open>mango.http\<close>: \<open>status\<close>, \<open>statusText\<close>, the parsed \<open>data\<close>
  and the result of \<open>text()\<close>.
\<close>

record response =
  status :: int
  statusText :: string
  data :: json
  response_text :: string

text \<open>
  The environment of one plugin call. \<open>http n r\<close> is the outcome of the call's request
  number \<open>n\<close> (from 0) when that request is \<open>r\<close>: a response, or the error the promise
  rejects with. Request headers and timeouts are fixed by the plugin, its configuration
  and the call's arguments, so they need no argument of their own. \<open>parseHTML\<close> is \<open>None\<close> when
  \<open>mango.utils.parseHTML\<close> is missing; applied to the body it gives a document or
  \<open>null\<close>. The element operations are those of the injected HTML parser. Logging has no
  effect on results and is left out.

  The remaining fields are builtins of the JavaScript engine that the plugins call and
  that are taken as given: \<open>parseFloat\<close> (\<open>None\<close> for \<open>NaN\<close>; its numbers are ordered
  by \<open>\<le>\<close>, with \<open>0\<close> for both zeros), \<open>new URL(s).origin\<close> (\<open>None\<close> when the constructor
  throws), \<open>new Date(v)\<close> followed by \<open>toISOString()\<close> (\<open>None\<close> for an invalid date) and
  \<open>new Date().toISOString()\<close>.
\<close>

record ('e, 'n) mango =
  http :: "nat \<Rightarrow> request \<Rightarrow> error + response"
  parseHTML :: "(json \<Rightarrow> 'e option) option"
  querySelectorAll :: "'e \<Rightarrow> string \<Rightarrow> 'e list"
  querySelector :: "'e \<Rightarrow> string \<Rightarrow> 'e option"
  getAttribute :: "'e \<Rightarrow> string \<Rightarrow> string option"
  textContent :: "'e \<Rightarrow> string option"
  parseFloat :: "string \<Rightarrow> 'n option"
  url_origin :: "string \<Rightarrow> string option"
  date_toISOString :: "json \<Rightarrow> string option"
  now_toISOString :: string

text \<open>\<open>parseFloat(s) || 0\<close>: \<open>NaN\<close> and zero both give \<open>0\<close>.\<close>

definition parseFloat_or_0 :: "('e, 'n::{linorder,zero}) mango \<Rightarrow> string \<Rightarrow> 'n" where
  "parseFloat_or_0 env s = (case parseFloat env s of None \<Rightarrow> 0 | Some v \<Rightarrow> v)"

section \<open>The results of the three operations\<close>

record search_result =
  title :: json
  cover_url :: string
  sr_identifier :: json

text \<open>A property that a plugin does not set reads as \<open>undefined\<close>.\<close>

record chapter_result =
  ch_identifier :: json
  ch_title :: string
  volume :: json
  ch_chapter :: json
  pages :: json
  language :: json
  group_id :: json
  published_at :: string

definition chapter_number :: "('e, 'n::{linorder,zero}) mango \<Rightarrow> chapter_result \<Rightarrow> 'n" where
  "chapter_number env c = parseFloat_or_0 env (js_toString (ch_chapter c))"

text \<open>
  \<open>Array.prototype.sort\<close> with the comparator
  \<open>(a, b) => (parseFloat(a.chapter) || 0) - (parseFloat(b.chapter) || 0)\<close>. The difference
  is negative, zero or positive as the first number is below, equal to or above the
  second, and the sort is stable: the result is in ascending order of that number, and
  entries of equal number keep their order.
\<close>

definition sort_chapters ::
  "('e, 'n::{linorder,zero}) mango \<Rightarrow> chapter_result list \<Rightarrow> chapter_result list" where
  "sort_chapters env chapters = sort_key (chapter_number env) chapters"

section \<open>The MangaDex plugin\<close>

definition API_BASE_URL :: string where
  "API_BASE_URL = ''https://api.mangadex.org''"

definition COVER_ART_BASE_URL :: string where
  "COVER_ART_BASE_URL = ''https://uploads.mangadex.org''"

definition MANGA_DEX_BASE_URL :: string where
  "MANGA_DEX_BASE_URL = ''https://mangadex.org''"

subsection \<open>search\<close>

text \<open>
  The loop over \<open>apiResponse.included\<close> that fills \<open>coverArtMap\<close>; the newest entry of a
  key is at the front, where \<open>map_get\<close> finds it first.
\<close>

fun mangadex_coverArtMap :: "json list \<Rightarrow> (json \<times> json) list \<Rightarrow> error + (json \<times> json) list" where
  "mangadex_coverArtMap [] coverArtMap = Inr coverArtMap"
| "mangadex_coverArtMap (item # items) coverArtMap =
     (case js_get item ''type'' of
        Inl e \<Rightarrow> Inl e
      | Inr item_type \<Rightarrow>
          if item_type = JStr ''cover_art'' \<and> truthy (js_prop item ''id'') then
            (let fileName =
                   js_or (js_or (js_opt_get (js_prop item ''attributes'') ''fileName'')
                                (js_opt_get (js_prop item ''attributes'') ''file_name''))
                         (JStr '''')
             in if truthy fileName
                then mangadex_coverArtMap items ((js_prop item ''id'', fileName) # coverArtMap)
                else mangadex_coverArtMap items coverArtMap)
          else mangadex_coverArtMap items coverArtMap)"

text \<open>The callback of \<open>filter\<close>.\<close>

definition mangadex_valid :: "json \<Rightarrow> bool" where
  "mangadex_valid mangaData =
     (truthy mangaData \<and>
      truthy (js_prop mangaData ''attributes'') \<and>
      truthy (js_prop (js_prop mangaData ''attributes'') ''title'') \<and>
      truthy (js_prop mangaData ''id''))"

definition mangadex_title :: "json \<Rightarrow> json" where
  "mangadex_title mangaData =
     (let attributes = js_prop mangaData ''attributes'';
          attr_title = js_prop attributes ''title''
      in if truthy attributes \<and> truthy attr_title \<and> typeof_object attr_title then
           (if truthy (js_prop attr_title ''en'') then js_prop attr_title ''en''
            else (case js_keys attr_title of
                    [] \<Rightarrow> JStr ''''
                  | k # ks \<Rightarrow> js_or (js_prop attr_title k) (JStr '''')))
         else JStr '''')"

text \<open>The loop over \<open>mangaData.relationships\<close>, left at the first cover file name found.\<close>

fun mangadex_coverFileName :: "(json \<times> json) list \<Rightarrow> json list \<Rightarrow> error + json" where
  "mangadex_coverFileName coverArtMap [] = Inr (JStr '''')"
| "mangadex_coverFileName coverArtMap (rel # rels) =
     (case js_get rel ''type'' of
        Inl e \<Rightarrow> Inl e
      | Inr rel_type \<Rightarrow>
          if rel_type = JStr ''cover_art'' then
            (let attrs = js_prop rel ''attributes'' in
             if truthy (js_or (js_opt_get attrs ''fileName'') (js_opt_get attrs ''file_name''))
             then Inr (js_or (js_prop attrs ''fileName'') (js_prop attrs ''file_name''))
             else if truthy (js_prop rel ''id'') \<and> map_get coverArtMap (js_prop rel ''id'') \<noteq> None
             then Inr (the (map_get coverArtMap (js_prop rel ''id'')))
             else mangadex_coverFileName coverArtMap rels)
          else mangadex_coverFileName coverArtMap rels)"

text \<open>The callback of \<open>map\<close>.\<close>

definition mangadex_search_entry :: "(json \<times> json) list \<Rightarrow> json \<Rightarrow> error + search_result" where
  "mangadex_search_entry coverArtMap mangaData =
     (case js_iter (js_or (js_prop mangaData ''relationships'') (JArr [])) of
        Inl e \<Rightarrow> Inl e
      | Inr rels \<Rightarrow>
          (case mangadex_coverFileName coverArtMap rels of
             Inl e \<Rightarrow> Inl e
           | Inr coverFileName \<Rightarrow>
               (let coverURL =
                      (if truthy coverFileName \<and> truthy (js_prop mangaData ''id'') then
                         (let originalCoverURL =
                                COVER_ART_BASE_URL @ ''/covers/'' @ js_toString (js_prop mangaData ''id'')
                                  @ ''/'' @ js_toString coverFileName @ ''.256.jpg''
                          in js_replace_first ''http://localhost:8080'' ''''
                               (mangadex_constructProxyUrl originalCoverURL
                                  (no_options\<lparr>referer := Some (MANGA_DEX_BASE_URL @ ''/'')\<rparr>)))
                       else '''')
                in Inr \<lparr>title = js_or (mangadex_title mangaData) (JStr ''Untitled''),
                        cover_url = coverURL,
                        sr_identifier = js_or (js_prop mangaData ''id'') (JStr '''')\<rparr>)))"


definition mangadex_search_url :: "string \<Rightarrow> string" where
  "mangadex_search_url query =
     API_BASE_URL @ ''/manga?title='' @ encodeURIComponent query @ ''&limit=25&includes[]=cover_art''"

text \<open>
  Every operation returns its outcome (\<open>Inl\<close> what it throws, \<open>Inr\<close> what it returns)
  together with the requests it has issued, in order.
\<close>

definition mangadex_search ::
  "('e, 'n) mango \<Rightarrow> string \<Rightarrow> (error + search_result list) \<times> request list" where
  "mangadex_search env query =
     (let url = mangadex_search_url query
      in ((case http env 0 (GET url) of
             Inl e \<Rightarrow> Inl e
           | Inr response \<Rightarrow>
               if status response \<noteq> 200
               then Inl (Error (''Search failed: '' @ statusText response))
               else
                 (let apiResponse = data response in
                  if \<not> truthy apiResponse \<or> \<not> truthy (js_prop apiResponse ''data'') \<or>
                     \<not> isArray (js_prop apiResponse ''data'') \<or>
                     js_prop (js_prop apiResponse ''data'') ''length'' = JNum ''0''
                  then Inr []
                  else
                    (case (if truthy (js_prop apiResponse ''included'') \<and>
                              isArray (js_prop apiResponse ''included'')
                           then mangadex_coverArtMap (array_items (js_prop apiResponse ''included'')) []
                           else Inr []) of
                       Inl e \<Rightarrow> Inl e
                     | Inr coverArtMap \<Rightarrow>
                         mapE (mangadex_search_entry coverArtMap)
                           (filter mangadex_valid (array_items (js_prop apiResponse ''data'')))))),
          [GET url]))"

subsection \<open>getChapters\<close>

definition formatChapterTitle :: "json \<Rightarrow> error + string" where
  "formatChapterTitle attrs =
     (if nullish attrs then Inl TypeError
      else
        (let parts = [];
             parts = (if truthy (js_prop attrs ''volume'')
                      then parts @ [''Vol. '' @ js_toString (js_prop attrs ''volume'')] else parts);
             parts = (if truthy (js_prop attrs ''chapter'')
                      then parts @ [''Ch. '' @ js_toString (js_prop attrs ''chapter'')] else parts);
             parts = (if truthy (js_prop attrs ''title'')
                      then parts @ [js_toString (js_prop attrs ''title'')] else parts)
         in Inr (js_join '' '' parts)))"

text \<open>The body of the loop over \<open>apiResponse.data\<close>: the chapter pushed for one entry.\<close>

definition mangadex_chapter :: "('e, 'n) mango \<Rightarrow> json \<Rightarrow> error + chapter_result" where
  "mangadex_chapter env chapterData =
     (case js_get chapterData ''attributes'' of
        Inl e \<Rightarrow> Inl e
      | Inr attrs \<Rightarrow>
          (case formatChapterTitle attrs of
             Inl e \<Rightarrow> Inl e
           | Inr chapterTitle \<Rightarrow>
               (case (if truthy (js_prop attrs ''publishAt'')
                      then (case date_toISOString env (js_prop attrs ''publishAt'') of
                              None \<Rightarrow> Inl RangeError
                            | Some isoString \<Rightarrow> Inr isoString)
                      else Inr '''') of
                  Inl e \<Rightarrow> Inl e
                | Inr publishedAt \<Rightarrow>
                    Inr \<lparr>ch_identifier = js_prop chapterData ''id'',
                         ch_title = chapterTitle,
                         volume = js_or (js_prop attrs ''volume'') (JStr ''''),
                         ch_chapter = js_or (js_prop attrs ''chapter'') (JStr ''''),
                         pages = js_or (js_prop attrs ''pages'') (JNum ''0''),
                         language = js_or (js_prop attrs ''translatedLanguage'') (JStr ''''),
                         group_id = JUndefined,
                         published_at = publishedAt\<rparr>)))"

definition mangadex_feed_url :: "string \<Rightarrow> nat \<Rightarrow> string" where
  "mangadex_feed_url seriesIdentifier offset =
     API_BASE_URL @ ''/manga/'' @ seriesIdentifier @ ''/feed?limit=500&offset='' @ show_nat offset
       @ ''&order[volume]=desc&order[chapter]=desc&translatedLanguage[]=en''"

text \<open>
  One round of \<open>while (true)\<close>, as request number \<open>n\<close> of the call: the request, the
  status check, the first \<open>break\<close> on a missing or empty \<open>data\<close>, the pushes, and the
  second \<open>break\<close> on a page shorter than \<open>limit = 500\<close>.
\<close>

definition mangadex_round ::
  "('e, 'n) mango \<Rightarrow> string \<Rightarrow> nat \<Rightarrow> nat \<Rightarrow> chapter_result list \<Rightarrow> chapter_result list round" where
  "mangadex_round env seriesIdentifier n offset allChapters =
     (case http env n (GET (mangadex_feed_url seriesIdentifier offset)) of
        Inl e \<Rightarrow> Throw e
      | Inr response \<Rightarrow>
          if status response \<noteq> 200
          then Throw (Error (''Failed to fetch chapters: '' @ statusText response))
          else
            (case js_get (data response) ''data'' of
               Inl e \<Rightarrow> Throw e
             | Inr api_data \<Rightarrow>
                 if \<not> truthy api_data \<or> js_prop api_data ''length'' = JNum ''0''
                 then Break allChapters
                 else
                   (case js_iter api_data of
                      Inl e \<Rightarrow> Throw e
                    | Inr entries \<Rightarrow>
                        (case mapE (mangadex_chapter env) entries of
                           Inl e \<Rightarrow> Throw e
                         | Inr chapters \<Rightarrow>
                             if length entries < 500
                             then Break (allChapters @ chapters)
                             else Next (allChapters @ chapters)))))"

partial_function (option) mangadex_loop ::
  "('e, 'n) mango \<Rightarrow> string \<Rightarrow> nat \<Rightarrow> nat \<Rightarrow> chapter_result list \<Rightarrow>
     ((error + chapter_result list) \<times> nat) option" where
  "mangadex_loop env seriesIdentifier n offset allChapters =
     (case mangadex_round env seriesIdentifier n offset allChapters of
        Throw e \<Rightarrow> Some (Inl e, Suc n)
      | Break chapters \<Rightarrow> Some (Inr chapters, Suc n)
      | Next chapters \<Rightarrow> mangadex_loop env seriesIdentifier (Suc n) (offset + 500) chapters)"

declare mangadex_loop.simps [code]

text \<open>
  \<open>getChapters\<close>: the loop from \<open>offset = 0\<close>, then \<open>allChapters.reverse()\<close>. The result is
  \<open>None\<close> when the loop never ends; otherwise the outcome and the number of requests
  issued (request \<open>k\<close> is the feed URL at offset \<open>500 * k\<close>).
\<close>

definition mangadex_getChapters ::
  "('e, 'n) mango \<Rightarrow> string \<Rightarrow> ((error + chapter_result list) \<times> nat) option" where
  "mangadex_getChapters env seriesIdentifier =
     (case mangadex_loop env seriesIdentifier 0 0 [] of
        None \<Rightarrow> None
      | Some (Inl e, requests) \<Rightarrow> Some (Inl e, requests)
      | Some (Inr allChapters, requests) \<Rightarrow> Some (Inr (rev allChapters), requests))"




subsection \<open>getPageURLs\<close>

definition mangadex_getPageURLs ::
  "('e, 'n) mango \<Rightarrow> string \<Rightarrow> (error + string list) \<times> request list" where
  "mangadex_getPageURLs env chapterIdentifier =
     (let url = API_BASE_URL @ ''/at-home/server/'' @ chapterIdentifier
      in ((case http env 0 (GET url) of
             Inl e \<Rightarrow> Inl e
           | Inr response \<Rightarrow>
               if status response \<noteq> 200
               then Inl (Error (''Failed to fetch page URLs: '' @ statusText response))
               else
                 (let apiResponse = data response in
                  case js_get apiResponse ''baseUrl'' of
                    Inl e \<Rightarrow> Inl e
                  | Inr baseURL \<Rightarrow>
                      (case js_get (js_prop apiResponse ''chapter'') ''hash'' of
                         Inl e \<Rightarrow> Inl e
                       | Inr hash \<Rightarrow>
                           (case js_or (js_prop (js_prop apiResponse ''chapter'') ''data'') (JArr []) of
                              JArr pageFiles \<Rightarrow>
                                Inr (map (\<lambda>pageFile.
                                       mangadex_constructProxyUrl
                                         (js_toString baseURL @ ''/data/'' @ js_toString hash
                                            @ ''/'' @ js_toString pageFile)
                                         (no_options\<lparr>referer := Some (MANGA_DEX_BASE_URL @ ''/'')\<rparr>)) pageFiles)
                            | _ \<Rightarrow> Inl TypeError)))),
          [GET url]))"

section \<open>The Webtoons plugin\<close>

definition WEBTOONS_BASE_URL :: string where
  "WEBTOONS_BASE_URL = ''https://www.webtoons.com''"

definition MOBILE_URL :: string where
  "MOBILE_URL = ''https://m.webtoons.com''"

definition SEARCH_URL :: string where
  "SEARCH_URL = ''https://www.webtoons.com/en/search/immediate?keyword=''"

definition SEARCH_PARAMS :: string where
  "SEARCH_PARAMS = ''&q_enc=UTF-8&st=1&r_format=json&r_enc=UTF-8''"

definition THUMBNAIL_URL :: string where
  "THUMBNAIL_URL = ''https://webtoon-phinf.pstatic.net''"

subsection \<open>search\<close>

text \<open>The callback of \<open>filter\<close>: \<open>item.titleNo != null\<close>, which throws on a null item.\<close>

definition webtoons_has_titleNo :: "json \<Rightarrow> error + bool" where
  "webtoons_has_titleNo item =
     (case js_get item ''titleNo'' of
        Inl e \<Rightarrow> Inl e
      | Inr titleNo \<Rightarrow> Inr (\<not> nullish titleNo))"

fun filterE :: "('a \<Rightarrow> error + bool) \<Rightarrow> 'a list \<Rightarrow> error + 'a list" where
  "filterE p [] = Inr []"
| "filterE p (x # xs) =
     (case p x of
        Inl e \<Rightarrow> Inl e
      | Inr keep \<Rightarrow>
          (case filterE p xs of
             Inl e \<Rightarrow> Inl e
           | Inr ys \<Rightarrow> Inr (if keep then x # ys else ys)))"

text \<open>
  The callback of \<open>map\<close>. A truthy thumbnail that is not a string has no \<open>startsWith\<close>
  method, which is a \<open>TypeError\<close>.
\<close>

definition webtoons_search_entry :: "json \<Rightarrow> error + search_result" where
  "webtoons_search_entry item =
     (let thumbnail = js_or (js_prop item ''thumbnailImage2'') (js_prop item ''thumbnailMobile'')
      in case (if truthy thumbnail then
                 (case thumbnail of
                    JStr thumb \<Rightarrow>
                      if js_startsWith thumb ''http://'' \<or> js_startsWith thumb ''https://''
                      then Inr thumb
                      else Inr (THUMBNAIL_URL @ (if js_startsWith thumb ''/'' then thumb else ''/'' @ thumb))
                  | _ \<Rightarrow> Inl TypeError)
               else Inr '''') of
           Inl e \<Rightarrow> Inl e
         | Inr coverUrl \<Rightarrow>
             (let finalCoverUrl =
                    (if coverUrl \<noteq> [] \<and> js_includes coverUrl ''webtoon-phinf.pstatic.net''
                     then js_replace_first ''http://localhost:8080'' ''''
                            (constructProxyUrl coverUrl
                               (no_options\<lparr>referer := Some (WEBTOONS_BASE_URL @ ''/'')\<rparr>))
                     else coverUrl)
              in Inr \<lparr>title = js_or (js_prop item ''title'') (JStr ''Untitled''),
                      cover_url = finalCoverUrl,
                      sr_identifier = JStr (js_toString (js_prop item ''titleNo''))\<rparr>))"


text \<open>The body of \<open>try\<close>; whatever it throws is caught and wrapped.\<close>

definition webtoons_search_try :: "('e, 'n) mango \<Rightarrow> string \<Rightarrow> error + search_result list" where
  "webtoons_search_try env query =
     (case http env 0 (GET (SEARCH_URL @ encodeURIComponent query @ SEARCH_PARAMS)) of
        Inl e \<Rightarrow> Inl e
      | Inr response \<Rightarrow>
          if status response \<noteq> 200
          then Inl (Error (''Search failed: '' @ statusText response))
          else
            (case js_get (data response) ''result'' of
               Inl e \<Rightarrow> Inl e
             | Inr result \<Rightarrow>
                 if \<not> truthy result \<or> js_prop result ''total'' = JNum ''0'' then Inr []
                 else
                   (case js_or (js_prop result ''searchedList'') (JArr []) of
                      JArr searchedItems \<Rightarrow>
                        (case filterE webtoons_has_titleNo searchedItems of
                           Inl e \<Rightarrow> Inl e
                         | Inr items \<Rightarrow> mapE webtoons_search_entry items)
                    | _ \<Rightarrow> Inl TypeError)))"

definition webtoons_search ::
  "('e, 'n) mango \<Rightarrow> string \<Rightarrow> (error + search_result list) \<times> request list" where
  "webtoons_search env query =
     ((case webtoons_search_try env query of
         Inl e \<Rightarrow> Inl (Wrapped ''Failed to search: '' e)
       | Inr results \<Rightarrow> Inr results),
      [GET (SEARCH_URL @ encodeURIComponent query @ SEARCH_PARAMS)])"

subsection \<open>The chapter identifier\<close>

text \<open>
  \<open>`id${seriesId}viewerLink${viewerLink}chNum${episodeNo}`.replace(/-/g, "_")\<close>, on the
  three strings that the template converts its values to.
\<close>

definition webtoons_chapterId :: "string \<Rightarrow> string \<Rightarrow> string \<Rightarrow> string" where
  "webtoons_chapterId seriesId viewerLink episodeNo =
     replace_hyphens (''id'' @ seriesId @ ''viewerLink'' @ viewerLink @ ''chNum'' @ episodeNo)"

text \<open>
  \<open>chapterId.match(/id(\d+)viewerLink(.+)chNum(.+)/)\<close>. The dot matches every character
  but a line terminator.
\<close>

definition line_terminator :: "char \<Rightarrow> bool" where
  "line_terminator c = ((of_char c :: nat) = 10 \<or> (of_char c :: nat) = 13)"

text \<open>
  The greedy second group followed by \<open>chNum(.+)\<close>, inside the run \<open>body\<close> of characters
  that the dot matches: the group tries \<open>j\<close> characters, the largest \<open>j\<close> first, at least
  one, and succeeds when \<open>chNum\<close> and one more character follow; the third group then
  takes the rest of the run.
\<close>

fun last_chNum :: "nat \<Rightarrow> string \<Rightarrow> (string \<times> string) option" where
  "last_chNum 0 body = None"
| "last_chNum (Suc j) body =
     (if js_startsWith (drop (Suc j) body) ''chNum'' \<and> Suc j + 5 < length body
      then Some (take (Suc j) body, drop (Suc j + 5) body)
      else last_chNum j body)"

text \<open>
  A match that starts at the head of \<open>s\<close>: \<open>id\<close>, the digits (the whole run, since
  \<open>viewerLink\<close> cannot follow a shorter one), \<open>viewerLink\<close>, and the two groups.
\<close>

definition chapterId_match_here :: "string \<Rightarrow> (string \<times> string \<times> string) option" where
  "chapterId_match_here s =
     (if js_startsWith s ''id'' then
        (let digits = takeWhile is_digit (drop 2 s);
             after = drop (2 + length digits) s
         in if digits \<noteq> [] \<and> js_startsWith after ''viewerLink'' then
              (let body = takeWhile (\<lambda>c. \<not> line_terminator c) (drop 10 after)
               in case last_chNum (length body) body of
                    None \<Rightarrow> None
                  | Some (viewerLink, chapterNum) \<Rightarrow> Some (digits, viewerLink, chapterNum))
            else None)
      else None)"

text \<open>The leftmost match; \<open>None\<close> is the \<open>null\<close> that \<open>match\<close> returns.\<close>

fun chapterId_match :: "string \<Rightarrow> (string \<times> string \<times> string) option" where
  "chapterId_match [] = None"
| "chapterId_match (c # cs) =
     (case chapterId_match_here (c # cs) of
        Some groups \<Rightarrow> Some groups
      | None \<Rightarrow> chapterId_match cs)"

text \<open>
  What the regular expression \<open>id(\d+)viewerLink(.+)chNum(.+)\<close> says, for comparison:
  somewhere in the string stands \<open>id\<close>, one or more digits, \<open>viewerLink\<close>, one or more
  characters other than line terminators, \<open>chNum\<close>, and again one or more such characters.
\<close>

definition chapterId_regex_matches :: "string \<Rightarrow> bool" where
  "chapterId_regex_matches s =
     (\<exists>pre S V N post.
        s = pre @ ''id'' @ S @ ''viewerLink'' @ V @ ''chNum'' @ N @ post \<and>
        S \<noteq> [] \<and> (\<forall>c \<in> set S. is_digit c) \<and>
        V \<noteq> [] \<and> (\<forall>c \<in> set V. \<not> line_terminator c) \<and>
        N \<noteq> [] \<and> (\<forall>c \<in> set N. \<not> line_terminator c))"

subsection \<open>getChapters\<close>

definition webtoons_episodes_url :: "string \<Rightarrow> json \<Rightarrow> string" where
  "webtoons_episodes_url seriesId cursor =
     MOBILE_URL @ ''/api/v1/webtoon/'' @ seriesId @ ''/episodes?pageSize=100&cursor=''
       @ js_toString cursor"

text \<open>
  One round of the \<open>do ... while (cursor !== null)\<close> loop, as request number \<open>n\<close>: the
  state is \<open>cursor\<close> and \<open>allEpisodes\<close>.
\<close>

definition webtoons_round ::
  "('e, 'n) mango \<Rightarrow> string \<Rightarrow> nat \<Rightarrow> json \<Rightarrow> json list \<Rightarrow> (json \<times> json list) round" where
  "webtoons_round env seriesId n cursor allEpisodes =
     (case http env n (GET (webtoons_episodes_url seriesId cursor)) of
        Inl e \<Rightarrow> Throw e
      | Inr episodesResponse \<Rightarrow>
          if status episodesResponse \<noteq> 200
          then Throw (Error (''Episodes API returned status '' @ show_int (status episodesResponse)
                               @ '': '' @ statusText episodesResponse))
          else if \<not> truthy (data episodesResponse)
          then Throw (Error ''Episodes API returned no data'')
          else
            (let responseData = data episodesResponse in
             if \<not> truthy (js_prop responseData ''success'')
             then Throw (Error ''Episodes API returned success=false'')
             else if \<not> truthy (js_prop responseData ''result'') \<or>
                     \<not> truthy (js_prop (js_prop responseData ''result'') ''episodeList'') \<or>
                     \<not> isArray (js_prop (js_prop responseData ''result'') ''episodeList'')
             then Throw (Error ''Invalid API response structure'')
             else
               (let episodes = array_items (js_prop (js_prop responseData ''result'') ''episodeList'');
                    cursor' = js_or (js_prop (js_prop responseData ''result'') ''nextCursor'') JNull
                in if cursor' \<noteq> JNull
                   then Next (cursor', allEpisodes @ episodes)
                   else Break (cursor', allEpisodes @ episodes))))"

partial_function (option) webtoons_loop ::
  "('e, 'n) mango \<Rightarrow> string \<Rightarrow> nat \<Rightarrow> json \<Rightarrow> json list \<Rightarrow> ((error + json list) \<times> nat) option" where
  "webtoons_loop env seriesId n cursor allEpisodes =
     (case webtoons_round env seriesId n cursor allEpisodes of
        Throw e \<Rightarrow> Some (Inl e, Suc n)
      | Break (cursor', episodes) \<Rightarrow> Some (Inr episodes, Suc n)
      | Next (cursor', episodes) \<Rightarrow> webtoons_loop env seriesId (Suc n) cursor' episodes)"

declare webtoons_loop.simps [code]

text \<open>The \<open>nextCursor\<close> of an episodes page.\<close>

definition webtoons_nextCursor :: "response \<Rightarrow> json" where
  "webtoons_nextCursor resp = js_prop (js_prop (data resp) ''result'') ''nextCursor''"




text \<open>The callback of \<open>map\<close> that turns an episode into a chapter.\<close>

definition webtoons_chapter :: "('e, 'n) mango \<Rightarrow> string \<Rightarrow> json \<Rightarrow> error + chapter_result" where
  "webtoons_chapter env seriesId episode =
     (case js_get episode ''episodeNo'' of
        Inl e \<Rightarrow> Inl e
      | Inr episode_episodeNo \<Rightarrow>
          (let episodeNo = js_or episode_episodeNo (JStr ''0'');
               episodeTitle = js_or (js_prop episode ''episodeTitle'')
                                (JStr (''Episode '' @ js_toString episodeNo));
               publishedAt =
                 (if truthy (js_prop episode ''exposureDateMillis'') then
                    (case date_toISOString env (js_prop episode ''exposureDateMillis'') of
                       None \<Rightarrow> now_toISOString env
                     | Some isoString \<Rightarrow> isoString)
                  else now_toISOString env);
               chapterId = webtoons_chapterId seriesId (js_toString (js_prop episode ''viewerLink''))
                             (js_toString episodeNo)
           in Inr \<lparr>ch_identifier = JStr chapterId,
                   ch_title = js_trim (js_toString episodeTitle),
                   volume = JStr '''',
                   ch_chapter = JStr (js_toString episodeNo),
                   pages = JNum ''0'',
                   language = JStr ''en'',
                   group_id = JStr '''',
                   published_at = publishedAt\<rparr>))"

text \<open>What follows the loop inside \<open>try\<close>.\<close>

definition webtoons_chapters_of ::
  "('e, 'n::{linorder,zero}) mango \<Rightarrow> string \<Rightarrow> json list \<Rightarrow> error + chapter_result list" where
  "webtoons_chapters_of env seriesId allEpisodes =
     (if length allEpisodes = 0 then Inr []
      else
        (case mapE (webtoons_chapter env seriesId) allEpisodes of
           Inl e \<Rightarrow> Inl e
         | Inr chapters \<Rightarrow> Inr (sort_chapters env chapters)))"

text \<open>
  \<open>getChapters\<close>: \<open>None\<close> when the loop never ends; otherwise the outcome and the number
  of requests issued. Every error is caught and wrapped.
\<close>

definition webtoons_getChapters ::
  "('e, 'n::{linorder,zero}) mango \<Rightarrow> string \<Rightarrow> ((error + chapter_result list) \<times> nat) option" where
  "webtoons_getChapters env seriesId =
     (case webtoons_loop env seriesId 0 (JNum ''0'') [] of
        None \<Rightarrow> None
      | Some (Inl e, requests) \<Rightarrow> Some (Inl (Wrapped ''Failed to get chapters: '' e), requests)
      | Some (Inr allEpisodes, requests) \<Rightarrow>
          (case webtoons_chapters_of env seriesId allEpisodes of
             Inl e \<Rightarrow> Some (Inl (Wrapped ''Failed to get chapters: '' e), requests)
           | Inr chapters \<Rightarrow> Some (Inr chapters, requests)))"

subsection \<open>getPageURLs\<close>

text \<open>Matching under the \<open>i\<close> flag: the patterns' letters are ASCII.\<close>

definition lower_ascii :: "char \<Rightarrow> char" where
  "lower_ascii c =
     (if 65 \<le> (of_char c :: nat) \<and> (of_char c :: nat) \<le> 90 then char_of ((of_char c :: nat) + 32) else c)"

definition startsWith_ci :: "string \<Rightarrow> string \<Rightarrow> bool" where
  "startsWith_ci s p = js_startsWith (map lower_ascii s) (map lower_ascii p)"

definition is_quote :: "char \<Rightarrow> bool" where
  "is_quote c = (c = CHR 0x22 \<or> c = CHR 0x27)"

text \<open>\<open>id=["']_imageList["']\<close> at the head of \<open>s\<close>.\<close>

definition imageList_attr_here :: "string \<Rightarrow> bool" where
  "imageList_attr_here s =
     (startsWith_ci s ''id='' \<and> 3 < length s \<and> is_quote (s ! 3) \<and>
      startsWith_ci (drop 4 s) ''_imageList'' \<and> 14 < length s \<and> is_quote (s ! 14))"

fun imageList_attr_within :: "string \<Rightarrow> bool" where
  "imageList_attr_within [] = False"
| "imageList_attr_within (c # cs) = (imageList_attr_here (c # cs) \<or> imageList_attr_within cs)"

text \<open>The lazy group \<open>([\s\S]*?)\<close> before the first \<open></div>\<close>.\<close>

fun before_div_close :: "string \<Rightarrow> string option" where
  "before_div_close [] = None"
| "before_div_close (c # cs) =
     (if startsWith_ci (c # cs) ''</div>'' then Some []
      else (case before_div_close cs of None \<Rightarrow> None | Some content \<Rightarrow> Some (c # content)))"

text \<open>
  A match of \<open>/<div[^>]*id=["']_imageList["'][^>]*>([\s\S]*?)<\/div>/i\<close> at the head of
  \<open>s\<close>. Both \<open>[^>]*\<close> stay inside the run \<open>tag\<close> of characters before the first \<open>>\<close>,
  which must hold the attribute; the group starts after that \<open>>\<close>.
\<close>

definition imageList_div_here :: "string \<Rightarrow> string option" where
  "imageList_div_here s =
     (if startsWith_ci s ''<div'' then
        (let tag = takeWhile (\<lambda>c. c \<noteq> CHR ''>'') (drop 4 s)
         in if 4 + length tag < length s \<and> imageList_attr_within tag
            then before_div_close (drop (4 + length tag + 1) s)
            else None)
      else None)"

fun imageList_div_match :: "string \<Rightarrow> string option" where
  "imageList_div_match [] = None"
| "imageList_div_match (c # cs) =
     (case imageList_div_here (c # cs) of
        Some content \<Rightarrow> Some content
      | None \<Rightarrow> imageList_div_match cs)"

text \<open>
  \<open>data-url=["']([^"']+)["']\<close> at the head of \<open>s\<close>: the group is the whole run of
  characters that are not quotes, not empty and closed by a quote. The result is the
  group and the length of what is matched.
\<close>

definition data_url_here :: "string \<Rightarrow> (string \<times> nat) option" where
  "data_url_here s =
     (if startsWith_ci s ''data-url='' \<and> 9 < length s \<and> is_quote (s ! 9) then
        (let url = takeWhile (\<lambda>c. \<not> is_quote c) (drop 10 s)
         in if url \<noteq> [] \<and> 10 + length url < length s then Some (url, 10 + length url + 1)
            else None)
      else None)"

text \<open>The greedy \<open>[^>]+\<close> before it: \<open>k\<close> characters of the run, the largest \<open>k\<close> first.\<close>

fun last_data_url :: "nat \<Rightarrow> string \<Rightarrow> (string \<times> nat) option" where
  "last_data_url 0 rest = None"
| "last_data_url (Suc k) rest =
     (case data_url_here (drop (Suc k) rest) of
        Some (url, len) \<Rightarrow> Some (url, Suc k + len)
      | None \<Rightarrow> last_data_url k rest)"

text \<open>A match of \<open>/<img[^>]+data-url=["']([^"']+)["']/gi\<close> at the head of \<open>s\<close>.\<close>

definition img_here :: "string \<Rightarrow> (string \<times> nat) option" where
  "img_here s =
     (if startsWith_ci s ''<img'' then
        (case last_data_url (length (takeWhile (\<lambda>c. c \<noteq> CHR ''>'') (drop 4 s))) (drop 4 s) of
           None \<Rightarrow> None
         | Some (url, len) \<Rightarrow> Some (url, 4 + len))
      else None)"

text \<open>
  The \<open>while ((imgMatch = imageListRegex.exec(...)) !== null)\<close> loop: the matches from
  left to right, each search starting where the last match ended (\<open>skip\<close> counts the
  characters of that match still to pass).
\<close>

fun img_data_urls :: "nat \<Rightarrow> string \<Rightarrow> string list" where
  "img_data_urls skip [] = []"
| "img_data_urls skip (c # cs) =
     (if 0 < skip then img_data_urls (skip - 1) cs
      else (case img_here (c # cs) of
              None \<Rightarrow> img_data_urls 0 cs
            | Some (url, len) \<Rightarrow> url # img_data_urls (len - 1) cs))"

text \<open>The viewer URL: an absolute link as it is, any other under the base URL.\<close>

definition webtoons_finalUrl :: "string \<Rightarrow> string" where
  "webtoons_finalUrl viewerLink =
     (if js_startsWith viewerLink ''http://'' \<or> js_startsWith viewerLink ''https://''
      then viewerLink
      else WEBTOONS_BASE_URL @
             (if js_startsWith viewerLink ''/'' then viewerLink else ''/'' @ viewerLink))"

text \<open>
  \<open>getPageURLs\<close> has no \<open>try\<close>. The identifier is matched before anything else; the request
  log is empty when the match fails. (\<open>baseUrl\<close> is assigned and never read.)
\<close>

definition webtoons_getPageURLs ::
  "('e, 'n) mango \<Rightarrow> string \<Rightarrow> (error + string list) \<times> request list" where
  "webtoons_getPageURLs env chapterId =
     (case chapterId_match chapterId of
        None \<Rightarrow> (Inl (Error ''Invalid chapter ID format''), [])
      | Some (mangaID, viewerLink, chapterNum) \<Rightarrow>
          (let finalUrl = webtoons_finalUrl viewerLink
           in ((case http env 0 (GET finalUrl) of
                  Inl e \<Rightarrow> Inl e
                | Inr resp \<Rightarrow>
                    if status resp = 200 then
                      (case imageList_div_match (response_text resp) of
                         None \<Rightarrow> Inl (Error ''_imageList div not found in chapter viewer'')
                       | Some imageListContent \<Rightarrow>
                           (let imageUrls = img_data_urls 0 imageListContent in
                            if length imageUrls = 0
                            then Inl (Error ''No images found in _imageList div'')
                            else Inr (map (\<lambda>imageUrl.
                                        constructProxyUrl imageUrl
                                          (no_options\<lparr>referer := Some (WEBTOONS_BASE_URL @ ''/'')\<rparr>))
                                        imageUrls)))
                    else Inl (Error (''Failed to get chapter viewer: '' @ show_int (status resp)
                                       @ '' '' @ statusText resp))),
               [GET finalUrl])))"

section \<open>The WeebCentral plugin\<close>

definition WEEBCENTRAL_BASE_URL :: string where
  "WEEBCENTRAL_BASE_URL = ''https://weebcentral.com''"

subsection \<open>String helpers of the plugin\<close>

text \<open>
  \<open>s.split(sep)\<close> for a separator that is not empty: \<open>cur\<close> is the part being read,
  \<open>skip\<close> the characters of a separator still to pass.
\<close>

fun js_split_go :: "string \<Rightarrow> nat \<Rightarrow> string \<Rightarrow> string \<Rightarrow> string list" where
  "js_split_go sep skip cur [] = [cur]"
| "js_split_go sep skip cur (c # cs) =
     (if 0 < skip then js_split_go sep (skip - 1) cur cs
      else if js_startsWith (c # cs) sep then cur # js_split_go sep (length sep - 1) [] cs
      else js_split_go sep 0 (cur @ [c]) cs)"

definition js_split :: "string \<Rightarrow> string \<Rightarrow> string list" where
  "js_split s sep = js_split_go sep 0 [] s"




text \<open>
  \<open>chapterTitle.match(/(\d+(?:\.\d+)?)/)\<close>: the leftmost run of digits, with a following
  dot and run of digits when there is one.
\<close>

fun chapterRegex_match :: "string \<Rightarrow> string option" where
  "chapterRegex_match [] = None"
| "chapterRegex_match (c # cs) =
     (if is_digit c then
        (let whole = takeWhile is_digit (c # cs);
             rest = dropWhile is_digit (c # cs)
         in case rest of
              d # r \<Rightarrow>
                if d = CHR ''.'' \<and> takeWhile is_digit r \<noteq> []
                then Some (whole @ ''.'' @ takeWhile is_digit r)
                else Some whole
            | [] \<Rightarrow> Some whole)
      else chapterRegex_match cs)"

subsection \<open>search\<close>






text \<open>The entries that a loop pushes, in order.\<close>

fun pushes :: "'a option list \<Rightarrow> 'a list" where
  "pushes [] = []"
| "pushes (None # xs) = pushes xs"
| "pushes (Some x # xs) = x # pushes xs"





subsection \<open>getChapters\<close>

text \<open>One round of the loop over \<open>chapterItems\<close>.\<close>

definition weebcentral_chapter :: "('e, 'n) mango \<Rightarrow> 'e \<Rightarrow> chapter_result option" where
  "weebcentral_chapter env item =
     (case querySelector env item ''a'' of
        None \<Rightarrow> None
      | Some a \<Rightarrow>
          (case getAttribute env a ''href'' of
             None \<Rightarrow> None
           | Some chapterLink \<Rightarrow>
               if chapterLink = [] then None
               else
                 (let chapterTitle =
                        (case querySelector env a ''span.grow > span'' of
                           None \<Rightarrow> ''''
                         | Some titleSpan \<Rightarrow>
                             (case textContent env titleSpan of
                                None \<Rightarrow> ''''
                              | Some t \<Rightarrow> if t \<noteq> [] then js_trim t else ''''));
                      chapterNumber =
                        (case chapterRegex_match chapterTitle of
                           None \<Rightarrow> ''''
                         | Some g \<Rightarrow> if g \<noteq> [] then cleanChapterNumber g else '''');
                      chapterId =
                        (case js_split chapterLink ''/chapters/'' of
                           part0 # part1 # parts \<Rightarrow> part1
                         | _ \<Rightarrow> '''');
                      publishedAt =
                        (case querySelector env item ''time'' of
                           None \<Rightarrow> ''''
                         | Some timeTag \<Rightarrow>
                             (case getAttribute env timeTag ''datetime'' of
                                None \<Rightarrow> ''''
                              | Some datetime \<Rightarrow> datetime))
                  in if chapterId \<noteq> []
                     then Some \<lparr>ch_identifier = JStr chapterId,
                                ch_title = chapterTitle,
                                volume = JUndefined,
                                ch_chapter = JStr chapterNumber,
                                pages = JUndefined,
                                language = JUndefined,
                                group_id = JUndefined,
                                published_at = publishedAt\<rparr>
                     else None)))"

definition weebcentral_chapters_url :: "string \<Rightarrow> string" where
  "weebcentral_chapters_url seriesIdentifier =
     WEEBCENTRAL_BASE_URL @ ''/series/'' @ seriesIdentifier @ ''/full-chapter-list''"

definition weebcentral_getChapters ::
  "('e, 'n::{linorder,zero}) mango \<Rightarrow> string \<Rightarrow> (error + chapter_result list) \<times> request list" where
  "weebcentral_getChapters env seriesIdentifier =
     ((case http env 0 (GET (weebcentral_chapters_url seriesIdentifier)) of
         Inl e \<Rightarrow> Inl e
       | Inr response \<Rightarrow>
           if status response \<noteq> 200
           then Inl (Error (''Failed to fetch chapters: '' @ statusText response))
           else
             (case parseHTML env of
                None \<Rightarrow> Inl (Error ''parseHTML not available in mango.utils'')
              | Some parse \<Rightarrow>
                  (case parse (data response) of
                     None \<Rightarrow> Inl TypeError
                   | Some doc \<Rightarrow>
                       (let chapterItems = querySelectorAll env doc ''div.flex.items-center'';
                            chapters = pushes (map (weebcentral_chapter env) chapterItems)
                        in if length chapters = 0 then Inl (Error ''No chapters found'')
                           else Inr (sort_chapters env (rev chapters)))))),
      [GET (weebcentral_chapters_url seriesIdentifier)])"

subsection \<open>getPageURLs\<close>

definition USER_AGENT :: string where
  "USER_AGENT = ''Mozilla/5.0 (Windows NT 10.0; Win64; x64) AppleWebKit/537.36 (KHTML, like Gecko) Chrome/120.0.0.0 Safari/537.36''"

text \<open>One round of the loop over \<open>images\<close>.\<close>

definition weebcentral_page :: "('e, 'n) mango \<Rightarrow> string \<Rightarrow> 'e \<Rightarrow> string option" where
  "weebcentral_page env chapterIdentifier img =
     (case getAttribute env img ''src'' of
        None \<Rightarrow> None
      | Some src \<Rightarrow>
          if src \<noteq> [] \<and> js_trim src \<noteq> [] then
            (let (imageOrigin, imageReferer) =
                   (case url_origin env src of
                      Some urlObj_origin \<Rightarrow> (urlObj_origin, urlObj_origin @ ''/'')
                    | None \<Rightarrow> (WEEBCENTRAL_BASE_URL,
                               WEEBCENTRAL_BASE_URL @ ''/chapters/'' @ chapterIdentifier))
             in Some (constructProxyUrl src
                        \<lparr>referer = Some imageReferer,
                         userAgent = Some USER_AGENT,
                         origin = Some imageOrigin\<rparr>))
          else None)"

definition weebcentral_images_url :: "string \<Rightarrow> string" where
  "weebcentral_images_url chapterIdentifier =
     WEEBCENTRAL_BASE_URL @ ''/chapters/'' @ chapterIdentifier
       @ ''/images?is_prev=False&reading_style=long_strip''"

definition weebcentral_getPageURLs ::
  "('e, 'n) mango \<Rightarrow> string \<Rightarrow> (error + string list) \<times> request list" where
  "weebcentral_getPageURLs env chapterIdentifier =
     ((case http env 0 (GET (weebcentral_images_url chapterIdentifier)) of
         Inl e \<Rightarrow> Inl e
       | Inr response \<Rightarrow>
           if status response \<noteq> 200
           then Inl (Error (''Failed to fetch page URLs: '' @ statusText response))
           else
             (case parseHTML env of
                None \<Rightarrow> Inl (Error ''parseHTML not available in mango.utils'')
              | Some parse \<Rightarrow>
                  (case parse (data response) of
                     None \<Rightarrow> Inl TypeError
                   | Some doc \<Rightarrow>
                       (let images = querySelectorAll env doc ''section.flex-1 img'';
                            images = (if length images = 0
                                      then querySelectorAll env doc ''img'' else images);
                            pages = pushes (map (weebcentral_page env chapterIdentifier) images)
                        in if length pages = 0 then Inl (Error ''No pages found'')
                           else Inr pages)))),
      [GET (weebcentral_images_url chapterIdentifier)])"

section \<open>Example environments\<close>

text \<open>
  A small document model in the manner of the plugins' unit tests: every element lists
  the selectors that find it from its parent.
\<close>

datatype node = Node (found_by: "string list") (attributes: "(string \<times> string) list")
  (node_text: "string option") (children: "node list")

definition node_querySelectorAll :: "node \<Rightarrow> string \<Rightarrow> node list" where
  "node_querySelectorAll el selector = filter (\<lambda>child. selector \<in> set (found_by child)) (children el)"

definition node_querySelector :: "node \<Rightarrow> string \<Rightarrow> node option" where
  "node_querySelector el selector =
     (case node_querySelectorAll el selector of [] \<Rightarrow> None | child # rest \<Rightarrow> Some child)"

text \<open>
  A number parser that agrees with \<open>parseFloat\<close> on the strings of decimal digits used in
  the examples, and gives \<open>NaN\<close> elsewhere.
\<close>

definition parse_digits :: "string \<Rightarrow> nat option" where
  "parse_digits s = (if s \<noteq> [] \<and> list_all is_digit s then Some (dec_value s) else None)"

definition ok_response :: "json \<Rightarrow> response" where
  "ok_response d =
     \<lparr>status = 200, statusText = ''OK'', data = d,
      response_text = (case d of JStr s \<Rightarrow> s | _ \<Rightarrow> [])\<rparr>"

text \<open>
  The environment of the examples: \<open>bodies n\<close> is the body of the response to
  request number \<open>n\<close>, every status is 200; \<open>doc\<close> is what \<open>parseHTML\<close> returns.
\<close>

definition example_env :: "(nat \<Rightarrow> json) \<Rightarrow> node \<Rightarrow> (node, nat) mango" where
  "example_env bodies doc =
     \<lparr>http = (\<lambda>n r. Inr (ok_response (bodies n))),
      parseHTML = Some (\<lambda>html. Some doc),
      querySelectorAll = node_querySelectorAll,
      querySelector = node_querySelector,
      getAttribute = (\<lambda>el name. map_of (attributes el) name),
      textContent = node_text,
      parseFloat = parse_digits,
      url_origin = (\<lambda>src. None),
      date_toISOString = (\<lambda>v. None),
      now_toISOString = ''2024-01-01T00:00:00.000Z''\<rparr>"

definition empty_doc :: node where
  "empty_doc = Node [] [] None []"

text \<open>
  Two Webtoons episode pages, the first with \<open>nextCursor: 100\<close>, the second with
  \<open>nextCursor: null\<close>; and two MangaDex feed pages, the first of 500 entries, the second
  of one.
\<close>

definition webtoons_episode :: "int \<Rightarrow> json" where
  "webtoons_episode k =
     JObj [(''episodeNo'', JNum (show_int k)),
           (''episodeTitle'', JStr (''Episode '' @ show_int k)),
           (''viewerLink'', JStr (''/en/x/viewer?title_no=6795&episode_no='' @ show_int k))]"

definition webtoons_page :: "json list \<Rightarrow> json \<Rightarrow> json" where
  "webtoons_page episodes nextCursor =
     JObj [(''success'', JBool True),
           (''result'', JObj [(''episodeList'', JArr episodes), (''nextCursor'', nextCursor)])]"

definition webtoons_two_pages :: "nat \<Rightarrow> json" where
  "webtoons_two_pages n =
     (if n = 0 then webtoons_page [webtoons_episode 2] (JNum ''100'')
      else webtoons_page [webtoons_episode 1] JNull)"

definition mangadex_entry :: "string \<Rightarrow> string \<Rightarrow> string \<Rightarrow> json" where
  "mangadex_entry chapter_id vol ch =
     JObj [(''id'', JStr chapter_id),
           (''attributes'', JObj [(''volume'', JStr vol), (''chapter'', JStr ch),
                                  (''translatedLanguage'', JStr ''en'')])]"


text \<open>An at-home response of MangaDex for a chapter without page files.\<close>

definition mangadex_no_pages :: "nat \<Rightarrow> json" where
  "mangadex_no_pages n =
     JObj [(''baseUrl'', JStr ''https://s2.mangadex.org''),
           (''chapter'', JObj [(''hash'', JStr ''abc123''), (''data'', JArr [])])]"

text \<open>A Webtoons viewer page whose \<open>_imageList\<close> container holds \<open>inner\<close>.\<close>

definition webtoons_viewer_html :: "string \<Rightarrow> string" where
  "webtoons_viewer_html inner =
     ''<html><div id='' @ [CHR 0x22] @ ''_imageList'' @ [CHR 0x22] @ ''>'' @ inner @ ''</div></html>''"

definition example_chapterId :: string where
  "example_chapterId = webtoons_chapterId ''6795'' ''/en/x/viewer?title_no=6795&episode_no=1'' ''1''"

text \<open>
  A WeebCentral chapter list of two rows, newest first; and a MangaDex feed page in the
  order the request asks for (volume descending, then chapter descending), where the
  chapter numbers start again in the second volume.
\<close>

definition weebcentral_chapter_row :: "string \<Rightarrow> string \<Rightarrow> node" where
  "weebcentral_chapter_row href row_title =
     Node [''div.flex.items-center''] [] None
       [Node [''a''] [(''href'', href)] None
          [Node [''span.grow > span''] [] (Some row_title) []]]"

definition weebcentral_two_rows :: node where
  "weebcentral_two_rows =
     Node [] [] None
       [weebcentral_chapter_row ''/chapters/ch2'' ''Chapter 2'',
        weebcentral_chapter_row ''/chapters/ch1'' ''Chapter 1'']"

definition mangadex_two_volumes :: "nat \<Rightarrow> json" where
  "mangadex_two_volumes n =
     JObj [(''data'', JArr [mangadex_entry ''c3'' ''2'' ''1'',
                            mangadex_entry ''c2'' ''1'' ''2'',
                            mangadex_entry ''c1'' ''1'' ''1''])]"

text \<open>The chapter numbers of a returned list, in order (nothing for a failure).\<close>

definition chapter_numbers ::
  "('e, 'n::{linorder,zero}) mango \<Rightarrow> ((error + chapter_result list) \<times> nat) option \<Rightarrow> 'n list" where
  "chapter_numbers env outcome =
     (case outcome of Some (Inr cs, k) \<Rightarrow> map (chapter_number env) cs | _ \<Rightarrow> [])"


definition webtoons_search_body :: "json list \<Rightarrow> nat \<Rightarrow> json" where
  "webtoons_search_body items n =
     JObj [(''result'', JObj [(''total'', JNum (show_nat (length items))), (''searchedList'', JArr items)])]"

definition webtoons_three_items :: "json list" where
  "webtoons_three_items =
     [JObj [(''titleNo'', JNum ''95''), (''title'', JStr ''unOrdinary''),
            (''thumbnailMobile'', JStr ''/thumbnail/a.jpg'')],
      JObj [(''titleNo'', JNull), (''title'', JStr ''No number'')],
      JObj [(''titleNo'', JNum ''7'')]]"

definition mangadex_search_body :: "nat \<Rightarrow> json" where
  "mangadex_search_body n =
     JObj [(''data'', JArr
             [JObj [(''id'', JStr ''m1''),
                    (''attributes'', JObj [(''title'', JObj [(''en'', JStr ''One'')])]),
                    (''relationships'', JArr
                       [JObj [(''type'', JStr ''cover_art''),
                              (''attributes'', JObj [(''fileName'', JStr ''c.jpg'')])]])],
              JObj [(''id'', JStr ''m2''), (''attributes'', JObj [])]])]"


text \<open>A Webtoons entry whose thumbnail is an absolute URL on a host other than the image CDN.\<close>

definition webtoons_external_cover_item :: "json list" where
  "webtoons_external_cover_item =
     [JObj [(''titleNo'', JNum ''7''), (''title'', JStr ''Seven''),
            (''thumbnailImage2'', JStr ''https://example.com/a.jpg'')]]"

section \<open>Properties\<close>

subsection \<open>Decimal numerals\<close>

lemma show_nat_not_empty: "show_nat n \<noteq> []"
  by (subst show_nat.simps) simp

lemma digit_char_zero: "n < 10 \<Longrightarrow> (digit_char n = CHR ''0'') = (n = 0)"
proof
  assume n: "n < 10" and z: "digit_char n = CHR ''0''"
  have "(of_char (digit_char n) :: nat) = (48 + n mod 10) mod 256"
    unfolding digit_char_def by (rule of_char_of)
  then have "(of_char (digit_char n) :: nat) = 48 + n" using n by simp
  moreover have "(of_char (digit_char n) :: nat) = 48" unfolding z by simp
  ultimately show "n = 0" by simp
next
  assume "n = 0"
  moreover have "char_of (48 :: nat) = CHR ''0''" by code_simp
  ultimately show "digit_char n = CHR ''0''" by (simp add: digit_char_def)
qed

lemma show_nat_eq_zero [simp]: "(show_nat n = ''0'') = (n = 0)"
proof (cases "n < 10")
  case True
  then show ?thesis
    by (subst show_nat.simps) (simp add: digit_char_zero)
next
  case False
  have "length (show_nat n) = Suc (length (show_nat (n div 10)))"
    using False by (subst show_nat.simps) simp
  moreover have "0 < length (show_nat (n div 10))" using show_nat_not_empty by simp
  ultimately have "length (show_nat n) \<noteq> 1" by simp
  then have "show_nat n \<noteq> ''0''" by auto
  then show ?thesis using False by simp
qed

subsection \<open>The proxy URL\<close>

lemma hex_digit_cases: "hex_digit n \<in> set ''0123456789ABCDEF''"
proof -
  have "n mod 16 < length ''0123456789ABCDEF''" by simp
  then show ?thesis unfolding hex_digit_def by (rule nth_mem)
qed

lemma percent_byte_chars: "c \<in> set (percent_byte n) \<Longrightarrow> escape_char c"
proof -
  assume "c \<in> set (percent_byte n)"
  then have "c = CHR ''%'' \<or> c = hex_digit (n div 16) \<or> c = hex_digit n"
    by (simp add: percent_byte_def)
  then show ?thesis
    unfolding escape_char_def
    using hex_digit_cases [of n] hex_digit_cases [of "n div 16"] by blast
qed

lemma encode_unit_chars:
  "c' \<in> set (encode_unit c) \<Longrightarrow> uri_unreserved c' \<or> escape_char c'"
  by (auto simp: encode_unit_def Let_def split: if_splits dest: percent_byte_chars)

lemma encodeURIComponent_chars:
  "c \<in> set (encodeURIComponent s) \<Longrightarrow> uri_unreserved c \<or> escape_char c"
  by (auto simp: encodeURIComponent_def dest: encode_unit_chars)

lemma encodeURIComponent_no_delimiter:
  "c \<in> set (encodeURIComponent s) \<Longrightarrow> c \<notin> set ''&=?''"
  by (auto dest!: encodeURIComponent_chars simp: uri_unreserved_def escape_char_def)

lemma constructProxyUrl_eq:
  "constructProxyUrl u opts =
     PROXY_BASE_URL @ ''?url='' @ encodeURIComponent u
       @ (if truthy_str (referer opts) then ''&referer='' @ encodeURIComponent (the (referer opts)) else [])
       @ (if truthy_str (userAgent opts) then ''&user-agent='' @ encodeURIComponent (the (userAgent opts)) else [])
       @ (if truthy_str (origin opts) then ''&origin='' @ encodeURIComponent (the (origin opts)) else [])"
  by (simp add: constructProxyUrl_def)

lemma mangadex_constructProxyUrl_eq:
  "mangadex_constructProxyUrl u opts =
     PROXY_BASE_URL @ ''?url='' @ encodeURIComponent u
       @ (if truthy_str (referer opts) then ''&referer='' @ encodeURIComponent (the (referer opts)) else [])"
  by (simp add: mangadex_constructProxyUrl_def)

text \<open>
  C6 (as amended). For every URL and every combination of options, the proxy URL of the
  WeebCentral and Webtoons plugins is the proxy base, \<open>?url=\<close> and the percent-encoded
  URL, followed by \<open>&referer=\<close>, \<open>&user-agent=\<close> and \<open>&origin=\<close> with the percent-encoded
  option, in that order, each exactly when its option is a non-empty string. The proxy URL
  of the MangaDex plugin is the proxy base, \<open>?url=\<close> and the percent-encoded URL,
  followed by \<open>&referer=\<close> and the percent-encoded referer exactly when that option is a
  non-empty string, and by nothing else: \<open>userAgent\<close> and \<open>origin\<close> are not appended. A
  percent-encoded value holds none of the delimiters \<open>&\<close>, \<open>=\<close>, \<open>?\<close>, so \<open>url\<close> is
  the first parameter of the query.
\<close>

theorem constructProxyUrl_format:
  "constructProxyUrl u opts =
     PROXY_BASE_URL @ ''?url='' @ encodeURIComponent u
       @ (if truthy_str (referer opts) then ''&referer='' @ encodeURIComponent (the (referer opts)) else [])
       @ (if truthy_str (userAgent opts) then ''&user-agent='' @ encodeURIComponent (the (userAgent opts)) else [])
       @ (if truthy_str (origin opts) then ''&origin='' @ encodeURIComponent (the (origin opts)) else [])
   \<and> mangadex_constructProxyUrl u opts =
     PROXY_BASE_URL @ ''?url='' @ encodeURIComponent u
       @ (if truthy_str (referer opts) then ''&referer='' @ encodeURIComponent (the (referer opts)) else [])
   \<and> (\<forall>c \<in> set (encodeURIComponent x). c \<notin> set ''&=?'')"
  using encodeURIComponent_no_delimiter [of _ x] constructProxyUrl_eq [of u opts]
    mangadex_constructProxyUrl_eq [of u opts]
  by blast

theorem constructProxyUrl_format_witness:
  "constructProxyUrl ''https://a.b/c d.jpg?x=1&y=2''
     \<lparr>referer = Some ''https://a.b/'', userAgent = Some [], origin = None\<rparr> =
   ''http://localhost:8080/api/proxy/resource?url=https%3A%2F%2Fa.b%2Fc%20d.jpg%3Fx%3D1%26y%3D2&referer=https%3A%2F%2Fa.b%2F'' \<and>
   mangadex_constructProxyUrl ''https://a.b/c d.jpg?x=1&y=2''
     \<lparr>referer = Some ''https://a.b/'', userAgent = Some [], origin = None\<rparr> =
   ''http://localhost:8080/api/proxy/resource?url=https%3A%2F%2Fa.b%2Fc%20d.jpg%3Fx%3D1%26y%3D2&referer=https%3A%2F%2Fa.b%2F'' \<and>
   encodeURIComponent ''a&b=c?'' = ''a%26b%3Dc%3F''"
  using constructProxyUrl_format [of "''https://a.b/c d.jpg?x=1&y=2''"
      "\<lparr>referer = Some ''https://a.b/'', userAgent = Some [], origin = None\<rparr>" "''a&b=c?''"]
  by (simp add: truthy_str_def encodeURIComponent_def encode_unit_def uri_unreserved_def
      percent_byte_def hex_digit_def PROXY_BASE_URL_def)

text \<open>
  C6 as stated fails for the MangaDex plugin: with a user agent and an origin among the
  options, its proxy URL has neither parameter, where that of the other two plugins has
  both.
\<close>

theorem mangadex_constructProxyUrl_counterexample:
  "mangadex_constructProxyUrl ''https://a.b/c.jpg''
     \<lparr>referer = None, userAgent = Some ''UA'', origin = Some ''https://a.b''\<rparr> =
   ''http://localhost:8080/api/proxy/resource?url=https%3A%2F%2Fa.b%2Fc.jpg'' \<and>
   constructProxyUrl ''https://a.b/c.jpg''
     \<lparr>referer = None, userAgent = Some ''UA'', origin = Some ''https://a.b''\<rparr> =
   ''http://localhost:8080/api/proxy/resource?url=https%3A%2F%2Fa.b%2Fc.jpg&user-agent=UA&origin=https%3A%2F%2Fa.b''"
  by code_simp

subsection \<open>cleanChapterNumber\<close>

lemma strip_leading_zeros_decomp:
  "\<exists>k. s = replicate k (CHR ''0'') @ strip_leading_zeros s"
proof (induction s)
  case Nil
  show ?case by simp
next
  case (Cons c cs)
  then obtain k where k: "cs = replicate k (CHR ''0'') @ strip_leading_zeros cs" by blast
  show ?case
  proof (cases "c = CHR ''0''")
    case True
    have "c # cs = replicate (Suc k) (CHR ''0'') @ strip_leading_zeros (c # cs)"
      using True k by simp
    then show ?thesis by blast
  next
    case False
    have "c # cs = replicate 0 (CHR ''0'') @ strip_leading_zeros (c # cs)"
      using False by simp
    then show ?thesis by blast
  qed
qed

lemma strip_leading_zeros_head:
  "strip_leading_zeros s = c # cs \<Longrightarrow> c \<noteq> CHR ''0''"
  by (induction s) (auto split: if_splits)

text \<open>
  C8. \<open>cleanChapterNumber\<close> removes all leading \<open>0\<close> characters: the input is some number
  of \<open>0\<close>s followed by a rest that does not start with \<open>0\<close>; the result is that rest, or
  \<open>"0"\<close> when the rest is empty. So \<open>"007"\<close> gives \<open>"7"\<close> and \<open>""\<close> gives \<open>"0"\<close>.
\<close>

theorem cleanChapterNumber_strips_zeros:
  "(\<exists>k r. s = replicate k (CHR ''0'') @ r \<and> take 1 r \<noteq> ''0'' \<and>
      cleanChapterNumber s = (if r = [] then ''0'' else r)) \<and>
   cleanChapterNumber ''007'' = ''7'' \<and> cleanChapterNumber '''' = ''0''"
proof -
  obtain k where k: "s = replicate k (CHR ''0'') @ strip_leading_zeros s"
    using strip_leading_zeros_decomp by blast
  have h: "take 1 (strip_leading_zeros s) \<noteq> ''0''"
    using strip_leading_zeros_head [of s] by (cases "strip_leading_zeros s") auto
  have c: "cleanChapterNumber s =
      (if strip_leading_zeros s = [] then ''0'' else strip_leading_zeros s)"
    by (simp add: cleanChapterNumber_def)
  have e1: "cleanChapterNumber ''007'' = ''7''" by (simp add: cleanChapterNumber_def)
  have e2: "cleanChapterNumber '''' = ''0''" by (simp add: cleanChapterNumber_def)
  from k h c e1 e2 show ?thesis by blast
qed

theorem cleanChapterNumber_strips_zeros_witness:
  "cleanChapterNumber ''0012.50'' = ''12.50'' \<and> cleanChapterNumber ''000'' = ''0'' \<and>
   (\<exists>k r. ''0012.50'' = replicate k (CHR ''0'') @ r \<and> take 1 r \<noteq> ''0'' \<and>
      cleanChapterNumber ''0012.50'' = (if r = [] then ''0'' else r))"
  using cleanChapterNumber_strips_zeros [of "''0012.50''"]
  by (simp add: cleanChapterNumber_def)

subsection \<open>The Webtoons chapter identifier\<close>

lemma replace_hyphens_append: "replace_hyphens (a @ b) = replace_hyphens a @ replace_hyphens b"
  by (simp add: replace_hyphens_def)

lemma replace_hyphens_length: "length (replace_hyphens s) = length s"
  by (simp add: replace_hyphens_def)

lemma replace_hyphens_drop: "drop i (replace_hyphens s) = replace_hyphens (drop i s)"
  by (simp add: replace_hyphens_def drop_map)

lemma replace_hyphens_take: "take i (replace_hyphens s) = replace_hyphens (take i s)"
  by (simp add: replace_hyphens_def take_map)

lemma replace_hyphens_id: "CHR ''-'' \<notin> set s \<Longrightarrow> replace_hyphens s = s"
  by (induction s) (auto simp: replace_hyphens_def)

lemma replace_hyphens_eq_iff:
  "CHR ''-'' \<notin> set p \<Longrightarrow> CHR ''_'' \<notin> set p \<Longrightarrow> (replace_hyphens s = p) = (s = p)"
proof (induction s arbitrary: p)
  case Nil
  then show ?case by (auto simp: replace_hyphens_def)
next
  case (Cons c cs)
  show ?case
  proof (cases p)
    case Nil
    then show ?thesis by (simp add: replace_hyphens_def)
  next
    case (Cons d ds)
    have "(replace_hyphens cs = ds) = (cs = ds)"
      using Cons.IH [of ds] Cons.prems Cons by simp
    then show ?thesis using Cons Cons.prems by (auto simp: replace_hyphens_def)
  qed
qed

lemma startsWith_replace_hyphens:
  "CHR ''-'' \<notin> set p \<Longrightarrow> CHR ''_'' \<notin> set p \<Longrightarrow>
   js_startsWith (replace_hyphens s) p = js_startsWith s p"
  unfolding js_startsWith_def replace_hyphens_take
  by (rule replace_hyphens_eq_iff)

lemma startsWith_append_self: "js_startsWith (p @ s) p"
  by (simp add: js_startsWith_def)

lemma startsWith_includes:
  "js_startsWith (drop k s) p \<Longrightarrow> k \<le> length s \<Longrightarrow> js_includes s p"
proof (induction s arbitrary: k)
  case Nil
  then show ?case by (simp add: js_startsWith_def)
next
  case (Cons c cs)
  then show ?case by (cases k) auto
qed

lemma last_chNum_found:
  "1 \<le> m \<Longrightarrow> m \<le> j \<Longrightarrow> js_startsWith (drop m body) ''chNum'' \<Longrightarrow> m + 5 < length body \<Longrightarrow>
   (\<And>i. m < i \<Longrightarrow> i \<le> j \<Longrightarrow> \<not> (js_startsWith (drop i body) ''chNum'' \<and> i + 5 < length body)) \<Longrightarrow>
   last_chNum j body = Some (take m body, drop (m + 5) body)"
proof (induction j)
  case 0
  then show ?case by simp
next
  case (Suc j)
  show ?case
  proof (cases "m = Suc j")
    case True
    then show ?thesis using Suc.prems by simp
  next
    case False
    then have mj: "m \<le> j" using Suc.prems by simp
    have no: "\<not> (js_startsWith (drop (Suc j) body) ''chNum'' \<and> Suc j + 5 < length body)"
      using Suc.prems(5) [of "Suc j"] mj by simp
    have ih: "last_chNum j body = Some (take m body, drop (m + 5) body)"
      using Suc.IH Suc.prems mj by simp
    show ?thesis using no ih by auto
  qed
qed

lemma includes_replace_hyphens:
  "CHR ''-'' \<notin> set p \<Longrightarrow> CHR ''_'' \<notin> set p \<Longrightarrow>
   js_includes (replace_hyphens s) p = js_includes s p"
proof (induction s)
  case Nil
  then show ?case by (auto simp: replace_hyphens_def)
next
  case (Cons c cs)
  have "js_startsWith (replace_hyphens (c # cs)) p = js_startsWith (c # cs) p"
    using Cons.prems by (rule startsWith_replace_hyphens)
  moreover have "replace_hyphens (c # cs) = (if c = CHR ''-'' then CHR ''_'' else c) # replace_hyphens cs"
    by (simp add: replace_hyphens_def)
  ultimately show ?case using Cons by simp
qed

lemma no_later_chNum:
  assumes N: "\<not> js_includes N ''chNum''" and i: "length V < i"
  shows "\<not> js_startsWith (drop i (V @ ''chNum'' @ N)) ''chNum''"
proof -
  define t where "t = i - length V"
  have d: "drop i (V @ ''chNum'' @ N) = drop t (''chNum'' @ N)" using i by (simp add: t_def)
  have c1: "\<not> js_startsWith (drop 1 (''chNum'' @ N)) ''chNum''"
    by (simp add: js_startsWith_def)
  have c2: "\<not> js_startsWith (drop 2 (''chNum'' @ N)) ''chNum''"
    by (simp add: js_startsWith_def)
  have c3: "\<not> js_startsWith (drop 3 (''chNum'' @ N)) ''chNum''"
    by (simp add: js_startsWith_def)
  have c4: "\<not> js_startsWith (drop 4 (''chNum'' @ N)) ''chNum''"
    by (simp add: js_startsWith_def)
  have c5: "\<not> js_startsWith (drop (5 + k) (''chNum'' @ N)) ''chNum''" for k
  proof -
    have "drop (5 + k) (''chNum'' @ N) = drop k (drop 5 (''chNum'' @ N))"
      by (simp only: drop_drop add.commute)
    then have "drop (5 + k) (''chNum'' @ N) = drop k N" by simp
    moreover have "\<not> js_startsWith (drop k N) ''chNum''"
    proof (cases "k \<le> length N")
      case True
      then show ?thesis using N startsWith_includes by blast
    next
      case False
      then show ?thesis by (simp add: js_startsWith_def)
    qed
    ultimately show ?thesis by simp
  qed
  have "t = 1 \<or> t = 2 \<or> t = 3 \<or> t = 4 \<or> (\<exists>k. t = 5 + k)"
    using i unfolding t_def by presburger
  then show ?thesis
    unfolding d using c1 c2 c3 c4 c5 by blast
qed

lemma chapterId_match_here_exact:
  assumes S: "S \<noteq> []" "\<forall>c \<in> set S. is_digit c"
    and V: "V \<noteq> []" "\<forall>c \<in> set V. \<not> line_terminator c"
    and N: "N \<noteq> []" "\<forall>c \<in> set N. \<not> line_terminator c" "\<not> js_includes N ''chNum''"
  shows "chapterId_match_here (''id'' @ S @ ''viewerLink'' @ V @ ''chNum'' @ N) = Some (S, V, N)"
proof -
  let ?B = "V @ ''chNum'' @ N"
  let ?s = "''id'' @ S @ ''viewerLink'' @ ?B"
  have s0: "js_startsWith ?s ''id''" by (simp add: js_startsWith_def)
  have dg: "takeWhile is_digit (drop 2 ?s) = S"
    using S(2) by (simp add: takeWhile_append2 is_digit_def)
  have af: "drop (2 + length S) ?s = ''viewerLink'' @ ?B" by simp
  have s1: "js_startsWith (''viewerLink'' @ ?B) ''viewerLink''" by (simp add: js_startsWith_def)
  have nt: "\<forall>c \<in> set ?B. \<not> line_terminator c"
    using V(2) N(2) by (auto simp: line_terminator_def)
  have bd: "takeWhile (\<lambda>c. \<not> line_terminator c) (drop 10 (''viewerLink'' @ ?B)) = ?B"
    using nt by (simp add: takeWhile_eq_all_conv)
  have lc: "last_chNum (length ?B) ?B = Some (take (length V) ?B, drop (length V + 5) ?B)"
  proof (rule last_chNum_found)
    show "1 \<le> length V" using V(1) by (cases V) auto
    show "length V \<le> length ?B" by simp
    show "js_startsWith (drop (length V) ?B) ''chNum''" by (simp add: js_startsWith_def)
    show "length V + 5 < length ?B" using N(1) by (cases N) auto
    show "\<not> (js_startsWith (drop i ?B) ''chNum'' \<and> i + 5 < length ?B)" if "length V < i" for i
      using no_later_chNum [OF N(3) that] by simp
  qed
  have lc': "last_chNum (length ?B) ?B = Some (V, N)" using lc by simp
  show ?thesis
    unfolding chapterId_match_here_def using s0 S(1) s1 lc'
    by (simp only: dg af bd Let_def if_True simp_thms option.case prod.case)
qed

lemma replace_hyphens_set:
  "c \<in> set (replace_hyphens s) \<Longrightarrow> c \<in> set s \<or> c = CHR ''_''"
  by (auto simp: replace_hyphens_def)

lemma webtoons_chapterId_shape:
  assumes "\<forall>c \<in> set S. is_digit c"
  shows "webtoons_chapterId S V N =
         ''id'' @ S @ ''viewerLink'' @ replace_hyphens V @ ''chNum'' @ replace_hyphens N"
proof -
  have "CHR ''-'' \<notin> set S" using assms by (auto simp: is_digit_def)
  then have "replace_hyphens S = S" by (rule replace_hyphens_id)
  moreover have "replace_hyphens ''id'' = ''id''" "replace_hyphens ''viewerLink'' = ''viewerLink''"
    "replace_hyphens ''chNum'' = ''chNum''"
    by (simp_all add: replace_hyphens_def)
  ultimately show ?thesis
    by (simp only: webtoons_chapterId_def replace_hyphens_append)
qed

text \<open>
  C2 (as amended). For a series id \<open>S\<close> that is a non-empty digit string, a viewer link
  \<open>V\<close> and an episode number \<open>N\<close> that are non-empty and hold no line terminator,
  \<open>N\<close> not containing \<open>chNum\<close>: decoding the encoded identifier recovers \<open>S\<close>, and
  \<open>V\<close> and \<open>N\<close> with every hyphen replaced by an underscore. \<open>V\<close> and \<open>N\<close> themselves
  are recovered when they hold no hyphen.
\<close>

theorem webtoons_chapterId_roundtrip:
  assumes S: "S \<noteq> []" "\<forall>c \<in> set S. is_digit c"
    and V: "V \<noteq> []" "\<forall>c \<in> set V. \<not> line_terminator c"
    and N: "N \<noteq> []" "\<forall>c \<in> set N. \<not> line_terminator c" "\<not> js_includes N ''chNum''"
  shows "chapterId_match (webtoons_chapterId S V N) = Some (S, replace_hyphens V, replace_hyphens N) \<and>
         (CHR ''-'' \<notin> set V \<and> CHR ''-'' \<notin> set N \<longrightarrow>
            chapterId_match (webtoons_chapterId S V N) = Some (S, V, N))"
proof -
  let ?V = "replace_hyphens V" and ?N = "replace_hyphens N"
  have V': "?V \<noteq> []" "\<forall>c \<in> set ?V. \<not> line_terminator c"
    using V by (auto simp: replace_hyphens_def line_terminator_def)
  have N': "?N \<noteq> []" "\<forall>c \<in> set ?N. \<not> line_terminator c"
    using N(1,2) by (auto simp: replace_hyphens_def line_terminator_def)
  have N'': "\<not> js_includes ?N ''chNum''"
    using N(3) by (simp add: includes_replace_hyphens)
  have here: "chapterId_match_here (''id'' @ S @ ''viewerLink'' @ ?V @ ''chNum'' @ ?N) = Some (S, ?V, ?N)"
    using S V' N' N'' by (rule chapterId_match_here_exact)
  have "chapterId_match (''id'' @ S @ ''viewerLink'' @ ?V @ ''chNum'' @ ?N) = Some (S, ?V, ?N)"
  proof -
    obtain c cs where cs: "''id'' @ S @ ''viewerLink'' @ ?V @ ''chNum'' @ ?N = c # cs" by simp
    show ?thesis unfolding cs using here [unfolded cs] by simp
  qed
  then have m: "chapterId_match (webtoons_chapterId S V N) = Some (S, ?V, ?N)"
    using webtoons_chapterId_shape [OF S(2)] by simp
  show ?thesis using m by (auto simp: replace_hyphens_id)
qed

theorem webtoons_chapterId_roundtrip_witness:
  "chapterId_match (webtoons_chapterId ''6795'' ''/en/viewer?title_no=6795&episode_no=12'' ''12'') =
     Some (''6795'', ''/en/viewer?title_no=6795&episode_no=12'', ''12'')"
  using webtoons_chapterId_roundtrip [of "''6795''" "''/en/viewer?title_no=6795&episode_no=12''" "''12''"]
  by (simp add: is_digit_def line_terminator_def js_startsWith_def replace_hyphens_def)

text \<open>
  C2 as stated fails for a viewer link with a hyphen: the decoder returns the link with
  an underscore in its place.
\<close>

theorem webtoons_chapterId_hyphen_counterexample:
  "chapterId_match (webtoons_chapterId ''6795'' ''/en/a-b/viewer?episode_no=1'' ''1'') =
     Some (''6795'', ''/en/a_b/viewer?episode_no=1'', ''1'') \<and>
   chapterId_match (webtoons_chapterId ''6795'' ''/en/a-b/viewer?episode_no=1'' ''1'') \<noteq>
     Some (''6795'', ''/en/a-b/viewer?episode_no=1'', ''1'')"
  by (simp add: webtoons_chapterId_def replace_hyphens_def chapterId_match_here_def
      js_startsWith_def is_digit_def line_terminator_def)

lemma startsWith_decomp: "js_startsWith s p \<Longrightarrow> s = p @ drop (length p) s"
  unfolding js_startsWith_def by (metis append_take_drop_id)

lemma last_chNum_exists:
  "1 \<le> m \<Longrightarrow> m \<le> j \<Longrightarrow> js_startsWith (drop m body) ''chNum'' \<Longrightarrow> m + 5 < length body \<Longrightarrow>
   last_chNum j body \<noteq> None"
proof (induction j)
  case 0
  then show ?case by simp
next
  case (Suc j)
  show ?case
  proof (cases "m = Suc j")
    case True
    then show ?thesis using Suc.prems by simp
  next
    case False
    then have "last_chNum j body \<noteq> None" using Suc by simp
    then show ?thesis by auto
  qed
qed

lemma last_chNum_sound:
  "last_chNum j body = Some (V, N) \<Longrightarrow>
   \<exists>m. 1 \<le> m \<and> m \<le> j \<and> V = take m body \<and> N = drop (m + 5) body \<and>
       js_startsWith (drop m body) ''chNum'' \<and> m + 5 < length body"
proof (induction j)
  case 0
  then show ?case by simp
next
  case (Suc j)
  show ?case
  proof (cases "js_startsWith (drop (Suc j) body) ''chNum'' \<and> Suc j + 5 < length body")
    case True
    then have "V = take (Suc j) body" "N = drop (Suc j + 5) body" using Suc.prems by auto
    then show ?thesis using True by (intro exI [of _ "Suc j"]) simp
  next
    case False
    then have "last_chNum j body = Some (V, N)" using Suc.prems by auto
    then obtain m where "1 \<le> m \<and> m \<le> j \<and> V = take m body \<and> N = drop (m + 5) body \<and>
       js_startsWith (drop m body) ''chNum'' \<and> m + 5 < length body"
      using Suc.IH by blast
    then show ?thesis by (intro exI [of _ m]) simp
  qed
qed

lemma chapterId_match_here_complete:
  assumes S: "S \<noteq> []" "\<forall>c \<in> set S. is_digit c"
    and V: "V \<noteq> []" "\<forall>c \<in> set V. \<not> line_terminator c"
    and N: "N \<noteq> []" "\<forall>c \<in> set N. \<not> line_terminator c"
  shows "chapterId_match_here (''id'' @ S @ ''viewerLink'' @ V @ ''chNum'' @ N @ post) \<noteq> None"
proof -
  let ?R = "V @ ''chNum'' @ N @ post"
  let ?s = "''id'' @ S @ ''viewerLink'' @ ?R"
  define body where "body = takeWhile (\<lambda>c. \<not> line_terminator c) ?R"
  have s0: "js_startsWith ?s ''id''" by (simp add: js_startsWith_def)
  have dg: "takeWhile is_digit (drop 2 ?s) = S"
    using S(2) by (simp add: takeWhile_append2 is_digit_def)
  have af: "drop (2 + length S) ?s = ''viewerLink'' @ ?R" by simp
  have s1: "js_startsWith (''viewerLink'' @ ?R) ''viewerLink''" by (simp add: js_startsWith_def)
  have d10: "drop 10 (''viewerLink'' @ ?R) = ?R" by simp
  have nt: "\<forall>c \<in> set (V @ ''chNum'' @ N). \<not> line_terminator c"
    using V(2) N(2) by (auto simp: line_terminator_def)
  have "takeWhile (\<lambda>c. \<not> line_terminator c) ((V @ ''chNum'' @ N) @ post) =
        (V @ ''chNum'' @ N) @ takeWhile (\<lambda>c. \<not> line_terminator c) post"
    using nt by (intro takeWhile_append2) blast
  then have bd: "body = V @ ''chNum'' @ N @ takeWhile (\<lambda>c. \<not> line_terminator c) post"
    by (simp add: body_def)
  have "last_chNum (length body) body \<noteq> None"
  proof (rule last_chNum_exists)
    show "1 \<le> length V" using V(1) by (cases V) auto
    show "length V \<le> length body" by (simp add: bd)
    show "js_startsWith (drop (length V) body) ''chNum''" by (simp add: bd js_startsWith_def)
    show "length V + 5 < length body" using N(1) by (cases N) (auto simp: bd)
  qed
  then obtain V' N' where lc: "last_chNum (length body) body = Some (V', N')" by auto
  show ?thesis
    unfolding chapterId_match_here_def using s0 S(1) s1 lc [unfolded body_def]
    by (simp only: dg af d10 Let_def if_True simp_thms option.case prod.case option.distinct)
qed

lemma chapterId_match_append:
  "chapterId_match_here t \<noteq> None \<Longrightarrow> chapterId_match (pre @ t) \<noteq> None"
proof (induction pre)
  case Nil
  then show ?case by (cases t) (auto simp: chapterId_match_here_def js_startsWith_def)
next
  case (Cons p ps)
  then show ?case by (auto split: option.splits)
qed

lemma chapterId_match_complete:
  "chapterId_regex_matches s \<Longrightarrow> chapterId_match s \<noteq> None"
  unfolding chapterId_regex_matches_def
  using chapterId_match_append chapterId_match_here_complete by blast

lemma startsWith_decomp_n: "js_startsWith s p \<Longrightarrow> length p = n \<Longrightarrow> s = p @ drop n s"
  using startsWith_decomp by blast

lemma chapterId_match_here_sound:
  assumes "chapterId_match_here s = Some (S, V, N)"
  shows "\<exists>post. s = ''id'' @ S @ ''viewerLink'' @ V @ ''chNum'' @ N @ post \<and>
        S \<noteq> [] \<and> (\<forall>c \<in> set S. is_digit c) \<and>
        V \<noteq> [] \<and> (\<forall>c \<in> set V. \<not> line_terminator c) \<and>
        N \<noteq> [] \<and> (\<forall>c \<in> set N. \<not> line_terminator c)"
proof -
  define digits where "digits = takeWhile is_digit (drop 2 s)"
  define after where "after = drop (2 + length digits) s"
  define body where "body = takeWhile (\<lambda>c. \<not> line_terminator c) (drop 10 after)"
  have unf: "chapterId_match_here s =
     (if js_startsWith s ''id'' then
        (if digits \<noteq> [] \<and> js_startsWith after ''viewerLink'' then
              (case last_chNum (length body) body of
                    None \<Rightarrow> None
                  | Some (viewerLink, chapterNum) \<Rightarrow> Some (digits, viewerLink, chapterNum))
            else None)
      else None)"
    unfolding chapterId_match_here_def digits_def after_def body_def Let_def by (rule refl)
  have s0: "js_startsWith s ''id''" using assms unf by (simp split: if_splits)
  have s1: "digits \<noteq> []" "js_startsWith after ''viewerLink''"
    using assms unf s0 by (simp_all split: if_splits)
  have lc: "last_chNum (length body) body = Some (V, N)" and SD: "S = digits"
    using assms unf s0 s1 by (auto split: option.splits)
  obtain m where m: "1 \<le> m" "V = take m body" "N = drop (m + 5) body"
      "js_startsWith (drop m body) ''chNum''" "m + 5 < length body"
    using last_chNum_sound [OF lc] by blast
  have e1: "s = ''id'' @ drop 2 s" using s0 by (rule startsWith_decomp_n) simp
  have e2: "drop 2 s = digits @ after"
  proof -
    have "after = drop (length digits) (drop 2 s)" by (simp add: after_def add.commute)
    then have "after = dropWhile is_digit (drop 2 s)"
      unfolding digits_def by (simp only: dropWhile_eq_drop)
    then show ?thesis unfolding digits_def by (simp only: takeWhile_dropWhile_id)
  qed
  have e3: "after = ''viewerLink'' @ drop 10 after" using s1(2) by (rule startsWith_decomp_n) simp
  have e4: "drop 10 after = body @ dropWhile (\<lambda>c. \<not> line_terminator c) (drop 10 after)"
    by (simp add: body_def)
  have e5: "drop m body = ''chNum'' @ drop 5 (drop m body)" using m(4) by (rule startsWith_decomp_n) simp
  have e6: "body = V @ ''chNum'' @ N"
  proof -
    have "body = take m body @ drop m body" by simp
    also have "\<dots> = take m body @ ''chNum'' @ drop 5 (drop m body)" using e5 by simp
    finally show ?thesis using m(2,3) by (simp add: add.commute)
  qed
  have nb: "\<forall>c \<in> set body. \<not> line_terminator c"
    unfolding body_def by (auto dest: set_takeWhileD)
  have "s = ''id'' @ S @ ''viewerLink'' @ V @ ''chNum'' @ N @
             dropWhile (\<lambda>c. \<not> line_terminator c) (drop 10 after)"
  proof -
    have "s = ''id'' @ (digits @ after)" using e1 e2 by simp
    also have "\<dots> = ''id'' @ digits @ ''viewerLink'' @ drop 10 after" using e3 by simp
    also have "\<dots> = ''id'' @ digits @ ''viewerLink'' @ (V @ ''chNum'' @ N) @
             dropWhile (\<lambda>c. \<not> line_terminator c) (drop 10 after)" using e4 e6 by simp
    finally show ?thesis using SD by simp
  qed
  moreover have "S \<noteq> []" using s1(1) SD by simp
  moreover have "\<forall>c \<in> set S. is_digit c"
    unfolding SD digits_def by (auto dest: set_takeWhileD)
  moreover have "V \<noteq> []" using m(1,2,5) by auto
  moreover have "N \<noteq> []" using m(3,5) by auto
  moreover have "\<forall>c \<in> set V. \<not> line_terminator c" "\<forall>c \<in> set N. \<not> line_terminator c"
    using nb e6 by auto
  ultimately show ?thesis by blast
qed

lemma chapterId_match_sound:
  "chapterId_match s = Some (S, V, N) \<Longrightarrow>
   \<exists>pre post. s = pre @ ''id'' @ S @ ''viewerLink'' @ V @ ''chNum'' @ N @ post \<and>
        S \<noteq> [] \<and> (\<forall>c \<in> set S. is_digit c) \<and>
        V \<noteq> [] \<and> (\<forall>c \<in> set V. \<not> line_terminator c) \<and>
        N \<noteq> [] \<and> (\<forall>c \<in> set N. \<not> line_terminator c)"
proof (induction s)
  case Nil
  then show ?case by simp
next
  case (Cons c cs)
  show ?case
  proof (cases "chapterId_match_here (c # cs)")
    case None
    then have "chapterId_match cs = Some (S, V, N)" using Cons.prems by simp
    then obtain pre post where "cs = pre @ ''id'' @ S @ ''viewerLink'' @ V @ ''chNum'' @ N @ post \<and>
        S \<noteq> [] \<and> (\<forall>c \<in> set S. is_digit c) \<and>
        V \<noteq> [] \<and> (\<forall>c \<in> set V. \<not> line_terminator c) \<and>
        N \<noteq> [] \<and> (\<forall>c \<in> set N. \<not> line_terminator c)"
      using Cons.IH by blast
    then have "c # cs = (c # pre) @ ''id'' @ S @ ''viewerLink'' @ V @ ''chNum'' @ N @ post \<and>
        S \<noteq> [] \<and> (\<forall>c \<in> set S. is_digit c) \<and>
        V \<noteq> [] \<and> (\<forall>c \<in> set V. \<not> line_terminator c) \<and>
        N \<noteq> [] \<and> (\<forall>c \<in> set N. \<not> line_terminator c)" by simp
    then show ?thesis by blast
  next
    case (Some g)
    then have "chapterId_match_here (c # cs) = Some (S, V, N)" using Cons.prems by simp
    then obtain post where "c # cs = [] @ ''id'' @ S @ ''viewerLink'' @ V @ ''chNum'' @ N @ post \<and>
        S \<noteq> [] \<and> (\<forall>c \<in> set S. is_digit c) \<and>
        V \<noteq> [] \<and> (\<forall>c \<in> set V. \<not> line_terminator c) \<and>
        N \<noteq> [] \<and> (\<forall>c \<in> set N. \<not> line_terminator c)"
      using chapterId_match_here_sound by fastforce
    then show ?thesis by blast
  qed
qed

lemma chapterId_match_iff_regex:
  "(chapterId_match s = None) = (\<not> chapterId_regex_matches s)"
proof
  assume "chapterId_match s = None"
  then show "\<not> chapterId_regex_matches s" using chapterId_match_complete by blast
next
  assume n: "\<not> chapterId_regex_matches s"
  show "chapterId_match s = None"
  proof (rule ccontr)
    assume "chapterId_match s \<noteq> None"
    then obtain S V N where "chapterId_match s = Some (S, V, N)" by auto
    then have "chapterId_regex_matches s"
      unfolding chapterId_regex_matches_def using chapterId_match_sound by blast
    then show False using n by simp
  qed
qed

text \<open>
  C9. A chapter identifier that the regular expression does not match makes
  \<open>getPageURLs\<close> fail with \<open>Invalid chapter ID format\<close>, and the list of requests it has
  issued is empty. With a match it issues exactly one request.
\<close>

theorem webtoons_getPageURLs_invalid_id:
  "(\<not> chapterId_regex_matches chapterId \<longrightarrow>
      webtoons_getPageURLs env chapterId = (Inl (Error ''Invalid chapter ID format''), [])) \<and>
   (chapterId_regex_matches chapterId \<longrightarrow> length (snd (webtoons_getPageURLs env chapterId)) = 1)"
proof (cases "chapterId_match chapterId")
  case None
  then have "\<not> chapterId_regex_matches chapterId" using chapterId_match_iff_regex by blast
  then show ?thesis using None by (simp add: webtoons_getPageURLs_def)
next
  case (Some g)
  then have "chapterId_regex_matches chapterId" using chapterId_match_iff_regex [of chapterId] by auto
  then show ?thesis using Some by (cases g) (simp add: webtoons_getPageURLs_def Let_def)
qed

theorem webtoons_getPageURLs_invalid_id_witness:
  "\<not> chapterId_regex_matches ''chapter-123'' \<and>
   webtoons_getPageURLs (example_env (\<lambda>n. JNull) empty_doc) ''chapter-123'' =
     (Inl (Error ''Invalid chapter ID format''), [])"
proof -
  have "chapterId_match ''chapter-123'' = None"
    by (simp add: chapterId_match_here_def js_startsWith_def)
  then have "\<not> chapterId_regex_matches ''chapter-123''" using chapterId_match_iff_regex by blast
  then show ?thesis using webtoons_getPageURLs_invalid_id [of "''chapter-123''" "example_env (\<lambda>n. JNull) empty_doc"]
    by blast
qed

subsection \<open>The pagination loops\<close>





text \<open>
  Without such a guarantee the loop need not end: for a source whose every page carries
  a cursor, \<open>getChapters\<close> never returns.
\<close>

lemma webtoons_loop_runs_forever:
  assumes more: "\<And>n cursor eps. \<exists>x. webtoons_round env sid n cursor eps = Next x"
  shows "webtoons_loop env sid n cursor eps = None"
proof (rule ccontr)
  assume "webtoons_loop env sid n cursor eps \<noteq> None"
  then obtain y where y: "webtoons_loop env sid n cursor eps = Some y" by auto
  have "env = env \<and> sid = sid \<longrightarrow> False"
  proof (rule webtoons_loop.raw_induct
      [where P = "\<lambda>e s n c a y. e = env \<and> s = sid \<longrightarrow> False", OF _ y])
    fix loop e s n' c' a' y'
    assume ih: "\<And>e s n c a y. loop e s n c a = Some y \<Longrightarrow> e = env \<and> s = sid \<longrightarrow> False"
      and step: "(case webtoons_round e s n' c' a' of
          Break (cursor', episodes) \<Rightarrow> Some (Inr episodes, Suc n')
        | Next (cursor', episodes) \<Rightarrow> loop e s (Suc n') cursor' episodes
        | Throw err \<Rightarrow> Some (Inl err, Suc n')) = Some y'"
    show "e = env \<and> s = sid \<longrightarrow> False"
    proof
      assume es: "e = env \<and> s = sid"
      obtain x where x: "webtoons_round env sid n' c' a' = Next x" using more by blast
      obtain c2 a2 where xs: "x = (c2, a2)" by (cases x)
      have "loop env sid (Suc n') c2 a2 = Some y'"
        using step x xs es by simp
      then show False using ih by blast
    qed
  qed
  then show False by simp
qed

lemma webtoons_getChapters_runs_forever:
  "webtoons_getChapters (example_env (\<lambda>n. webtoons_page [] (JNum ''100'')) empty_doc) sid = None"
proof -
  have "\<exists>x. webtoons_round (example_env (\<lambda>n. webtoons_page [] (JNum ''100'')) empty_doc) sid n cursor eps = Next x"
    for n cursor eps
    by (simp add: webtoons_round_def example_env_def ok_response_def webtoons_page_def
        js_prop_def js_or_def isArray_def Let_def)
  then have "webtoons_loop (example_env (\<lambda>n. webtoons_page [] (JNum ''100'')) empty_doc) sid 0 (JNum ''0'') [] = None"
    by (rule webtoons_loop_runs_forever)
  then show ?thesis by (simp add: webtoons_getChapters_def)
qed









subsection \<open>getPageURLs without pages\<close>

lemma weebcentral_getPageURLs_nonempty:
  "fst (weebcentral_getPageURLs env c) \<noteq> Inr []"
  by (auto simp: weebcentral_getPageURLs_def Let_def split: sum.splits option.splits)

lemma webtoons_getPageURLs_nonempty:
  "fst (webtoons_getPageURLs env c) \<noteq> Inr []"
  by (auto simp: webtoons_getPageURLs_def Let_def split: sum.splits option.splits)

text \<open>
  C3 (as amended). \<open>getPageURLs\<close> of WeebCentral and of Webtoons never returns the empty
  list: with a response of status 200 and no page resolved, WeebCentral throws
  \<open>No pages found\<close> and Webtoons throws \<open>No images found in _imageList div\<close>.
  \<open>getPageURLs\<close> of MangaDex returns the empty list when the response of status 200
  lists no page files.
\<close>

theorem getPageURLs_empty_policy:
  "fst (weebcentral_getPageURLs envA cA) \<noteq> Inr [] \<and>
   fst (webtoons_getPageURLs envB cB) \<noteq> Inr [] \<and>
   (http envA 0 (GET (weebcentral_images_url cA)) = Inr respA \<and> status respA = 200 \<and>
    parseHTML envA = Some parse \<and> parse (data respA) = Some doc \<and>
    querySelectorAll envA doc ''section.flex-1 img'' = [] \<and>
    pushes (map (weebcentral_page envA cA) (querySelectorAll envA doc ''img'')) = []
    \<longrightarrow> fst (weebcentral_getPageURLs envA cA) = Inl (Error ''No pages found'')) \<and>
   (chapterId_match cB = Some (S, V, N) \<and>
    http envB 0 (GET (webtoons_finalUrl V)) = Inr respB \<and> status respB = 200 \<and>
    imageList_div_match (response_text respB) = Some content \<and> img_data_urls 0 content = []
    \<longrightarrow> fst (webtoons_getPageURLs envB cB) = Inl (Error ''No images found in _imageList div'')) \<and>
   (http envC 0 (GET (API_BASE_URL @ ''/at-home/server/'' @ cC)) = Inr respC \<and> status respC = 200 \<and>
    \<not> nullish (data respC) \<and> \<not> nullish (js_prop (data respC) ''chapter'') \<and>
    js_or (js_prop (js_prop (data respC) ''chapter'') ''data'') (JArr []) = JArr []
    \<longrightarrow> fst (mangadex_getPageURLs envC cC) = Inr [])"
proof -
  have a: "fst (weebcentral_getPageURLs envA cA) \<noteq> Inr []"
    by (rule weebcentral_getPageURLs_nonempty)
  have b: "fst (webtoons_getPageURLs envB cB) \<noteq> Inr []"
    by (rule webtoons_getPageURLs_nonempty)
  have a': "http envA 0 (GET (weebcentral_images_url cA)) = Inr respA \<and> status respA = 200 \<and>
    parseHTML envA = Some parse \<and> parse (data respA) = Some doc \<and>
    querySelectorAll envA doc ''section.flex-1 img'' = [] \<and>
    pushes (map (weebcentral_page envA cA) (querySelectorAll envA doc ''img'')) = []
    \<longrightarrow> fst (weebcentral_getPageURLs envA cA) = Inl (Error ''No pages found'')"
    by (simp add: weebcentral_getPageURLs_def Let_def)
  have b': "chapterId_match cB = Some (S, V, N) \<and>
    http envB 0 (GET (webtoons_finalUrl V)) = Inr respB \<and> status respB = 200 \<and>
    imageList_div_match (response_text respB) = Some content \<and> img_data_urls 0 content = []
    \<longrightarrow> fst (webtoons_getPageURLs envB cB) = Inl (Error ''No images found in _imageList div'')"
    by (simp add: webtoons_getPageURLs_def Let_def)
  have c': "http envC 0 (GET (API_BASE_URL @ ''/at-home/server/'' @ cC)) = Inr respC \<and> status respC = 200 \<and>
    \<not> nullish (data respC) \<and> \<not> nullish (js_prop (data respC) ''chapter'') \<and>
    js_or (js_prop (js_prop (data respC) ''chapter'') ''data'') (JArr []) = JArr []
    \<longrightarrow> fst (mangadex_getPageURLs envC cC) = Inr []"
    by (simp add: mangadex_getPageURLs_def Let_def js_get_def)
  show ?thesis using a b a' b' c' by blast
qed

lemma example_chapterId_match:
  "chapterId_match example_chapterId =
     Some (''6795'', ''/en/x/viewer?title_no=6795&episode_no=1'', ''1'')"
  by (simp add: example_chapterId_def webtoons_chapterId_def replace_hyphens_def
      chapterId_match_here_def js_startsWith_def is_digit_def line_terminator_def)

lemma example_viewer_empty:
  "imageList_div_match (webtoons_viewer_html []) = Some []"
  by (simp add: webtoons_viewer_html_def imageList_div_here_def startsWith_ci_def
      js_startsWith_def lower_ascii_def imageList_attr_here_def is_quote_def)

theorem getPageURLs_empty_policy_witness:
  "fst (weebcentral_getPageURLs (example_env (\<lambda>n. JStr ''<html></html>'') empty_doc) ''ch1'') =
     Inl (Error ''No pages found'') \<and>
   fst (webtoons_getPageURLs (example_env (\<lambda>n. JStr (webtoons_viewer_html [])) empty_doc)
          example_chapterId) = Inl (Error ''No images found in _imageList div'') \<and>
   fst (mangadex_getPageURLs
          (example_env (\<lambda>n. JObj [(''baseUrl'', JStr ''b''), (''chapter'', JObj [(''hash'', JStr ''h'')])])
             empty_doc) ''chapter-123'') = Inr []"
  using getPageURLs_empty_policy [where
      envA = "example_env (\<lambda>n. JStr ''<html></html>'') empty_doc" and cA = "''ch1''"
      and respA = "ok_response (JStr ''<html></html>'')" and parse = "\<lambda>html. Some empty_doc"
      and doc = empty_doc
      and envB = "example_env (\<lambda>n. JStr (webtoons_viewer_html [])) empty_doc"
      and cB = example_chapterId and S = "''6795''"
      and V = "''/en/x/viewer?title_no=6795&episode_no=1''" and N = "''1''"
      and respB = "ok_response (JStr (webtoons_viewer_html []))" and content = "[]"
      and envC = "example_env (\<lambda>n. JObj [(''baseUrl'', JStr ''b''), (''chapter'', JObj [(''hash'', JStr ''h'')])]) empty_doc"
      and cC = "''chapter-123''"
      and respC = "ok_response (JObj [(''baseUrl'', JStr ''b''), (''chapter'', JObj [(''hash'', JStr ''h'')])])"]
    example_chapterId_match example_viewer_empty
  by (simp add: example_env_def ok_response_def empty_doc_def node_querySelectorAll_def
      nullish_def js_prop_def js_or_def)

text \<open>
  C3 as stated fails for MangaDex: a response of status 200 without page files gives the
  empty list as the result, as the plugin's own test of an empty page list expects.
\<close>

theorem mangadex_getPageURLs_empty_counterexample:
  "mangadex_getPageURLs (example_env mangadex_no_pages empty_doc) ''chapter-123'' =
     (Inr [], [GET ''https://api.mangadex.org/at-home/server/chapter-123''])"
  by (simp add: mangadex_getPageURLs_def example_env_def mangadex_no_pages_def ok_response_def
      API_BASE_URL_def js_get_def js_prop_def js_or_def nullish_def)

subsection \<open>getChapters without chapters\<close>

lemma weebcentral_getChapters_nonempty:
  "fst (weebcentral_getChapters env sid) \<noteq> Inr []"
proof -
  have "sort_chapters env xs \<noteq> []" if "xs \<noteq> []" for xs :: "chapter_result list"
    using that by (metis length_sort sort_chapters_def length_0_conv)
  then show ?thesis
    by (auto simp: weebcentral_getChapters_def Let_def split: sum.splits option.splits)
qed

lemma webtoons_empty_page:
  assumes "http env 0 (GET (webtoons_episodes_url sid (JNum ''0''))) = Inr resp" "status resp = 200"
    and "truthy (js_prop (data resp) ''success'')"
    and "js_prop (js_prop (data resp) ''result'') ''episodeList'' = JArr []"
    and "\<not> truthy (webtoons_nextCursor resp)"
  shows "webtoons_getChapters env sid = Some (Inr [], 1)"
proof -
  have d: "truthy (data resp)" using assms(3) by (cases "data resp") (auto simp: js_prop_def)
  have r: "truthy (js_prop (data resp) ''result'')"
    using assms(4) by (cases "js_prop (data resp) ''result''") (auto simp: js_prop_def split: if_splits)
  have "webtoons_round env sid 0 (JNum ''0'') [] = Break (JNull, [])"
    using assms d r
    by (simp add: webtoons_round_def Let_def isArray_def array_items_def js_or_def
        webtoons_nextCursor_def)
  then have "webtoons_loop env sid 0 (JNum ''0'') [] = Some (Inr [], 1)"
    by (simp add: webtoons_loop.simps [of env sid 0 "JNum ''0''" "[]"])
  then show ?thesis by (simp add: webtoons_getChapters_def webtoons_chapters_of_def)
qed

lemma mangadex_empty_page:
  assumes "http env 0 (GET (mangadex_feed_url sid 0)) = Inr resp" "status resp = 200"
    and "\<not> nullish (data resp)" and "js_prop (data resp) ''data'' = JArr []"
  shows "mangadex_getChapters env sid = Some (Inr [], 1)"
proof -
  have "mangadex_round env sid 0 0 [] = Break []"
    using assms by (simp add: mangadex_round_def js_get_def js_prop_def)
  then have "mangadex_loop env sid 0 0 [] = Some (Inr [], 1)"
    by (simp add: mangadex_loop.simps [of env sid 0 0 "[]"])
  then show ?thesis by (simp add: mangadex_getChapters_def)
qed

text \<open>
  C4. When no chapter is resolved from responses of status 200, \<open>getChapters\<close> of
  WeebCentral throws \<open>No chapters found\<close> (it never returns the empty list), while
  \<open>getChapters\<close> of Webtoons and of MangaDex return the empty list: whenever their loop
  ends with nothing collected, and in particular for a single empty page.
\<close>

theorem getChapters_empty_policy:
  "fst (weebcentral_getChapters envA sA) \<noteq> Inr [] \<and>
   (http envA 0 (GET (weebcentral_chapters_url sA)) = Inr respA \<and> status respA = 200 \<and>
    parseHTML envA = Some parse \<and> parse (data respA) = Some doc \<and>
    pushes (map (weebcentral_chapter envA) (querySelectorAll envA doc ''div.flex.items-center'')) = []
    \<longrightarrow> fst (weebcentral_getChapters envA sA) = Inl (Error ''No chapters found'')) \<and>
   (webtoons_loop envB sB 0 (JNum ''0'') [] = Some (Inr [], k)
    \<longrightarrow> webtoons_getChapters envB sB = Some (Inr [], k)) \<and>
   (http envB 0 (GET (webtoons_episodes_url sB (JNum ''0''))) = Inr respB \<and> status respB = 200 \<and>
    truthy (js_prop (data respB) ''success'') \<and>
    js_prop (js_prop (data respB) ''result'') ''episodeList'' = JArr [] \<and>
    \<not> truthy (webtoons_nextCursor respB)
    \<longrightarrow> webtoons_getChapters envB sB = Some (Inr [], 1)) \<and>
   (mangadex_loop envC sC 0 0 [] = Some (Inr [], k')
    \<longrightarrow> mangadex_getChapters envC sC = Some (Inr [], k')) \<and>
   (http envC 0 (GET (mangadex_feed_url sC 0)) = Inr respC \<and> status respC = 200 \<and>
    \<not> nullish (data respC) \<and> js_prop (data respC) ''data'' = JArr []
    \<longrightarrow> mangadex_getChapters envC sC = Some (Inr [], 1))"
proof -
  have a: "fst (weebcentral_getChapters envA sA) \<noteq> Inr []"
    by (rule weebcentral_getChapters_nonempty)
  have a': "http envA 0 (GET (weebcentral_chapters_url sA)) = Inr respA \<and> status respA = 200 \<and>
    parseHTML envA = Some parse \<and> parse (data respA) = Some doc \<and>
    pushes (map (weebcentral_chapter envA) (querySelectorAll envA doc ''div.flex.items-center'')) = []
    \<longrightarrow> fst (weebcentral_getChapters envA sA) = Inl (Error ''No chapters found'')"
    by (simp add: weebcentral_getChapters_def Let_def)
  have b: "webtoons_loop envB sB 0 (JNum ''0'') [] = Some (Inr [], k)
    \<longrightarrow> webtoons_getChapters envB sB = Some (Inr [], k)"
    by (simp add: webtoons_getChapters_def webtoons_chapters_of_def)
  have b': "http envB 0 (GET (webtoons_episodes_url sB (JNum ''0''))) = Inr respB \<and> status respB = 200 \<and>
    truthy (js_prop (data respB) ''success'') \<and>
    js_prop (js_prop (data respB) ''result'') ''episodeList'' = JArr [] \<and>
    \<not> truthy (webtoons_nextCursor respB)
    \<longrightarrow> webtoons_getChapters envB sB = Some (Inr [], 1)"
    using webtoons_empty_page by blast
  have c: "mangadex_loop envC sC 0 0 [] = Some (Inr [], k')
    \<longrightarrow> mangadex_getChapters envC sC = Some (Inr [], k')"
    by (simp add: mangadex_getChapters_def)
  have c': "http envC 0 (GET (mangadex_feed_url sC 0)) = Inr respC \<and> status respC = 200 \<and>
    \<not> nullish (data respC) \<and> js_prop (data respC) ''data'' = JArr []
    \<longrightarrow> mangadex_getChapters envC sC = Some (Inr [], 1)"
    using mangadex_empty_page by blast
  show ?thesis using a a' b b' c c' by blast
qed

theorem getChapters_empty_policy_witness:
  "fst (weebcentral_getChapters (example_env (\<lambda>n. JStr ''<html></html>'') empty_doc) ''series-123'') =
     Inl (Error ''No chapters found'') \<and>
   webtoons_getChapters (example_env (\<lambda>n. webtoons_page [] JNull) empty_doc) ''6795'' = Some (Inr [], 1) \<and>
   mangadex_getChapters (example_env (\<lambda>n. JObj [(''data'', JArr [])]) empty_doc) ''manga-123'' =
     Some (Inr [], 1)"
  using getChapters_empty_policy [where
      envA = "example_env (\<lambda>n. JStr ''<html></html>'') empty_doc" and sA = "''series-123''"
      and respA = "ok_response (JStr ''<html></html>'')" and parse = "\<lambda>html. Some empty_doc"
      and doc = empty_doc
      and envB = "example_env (\<lambda>n. webtoons_page [] JNull) empty_doc" and sB = "''6795''"
      and respB = "ok_response (webtoons_page [] JNull)"
      and envC = "example_env (\<lambda>n. JObj [(''data'', JArr [])]) empty_doc" and sC = "''manga-123''"
      and respC = "ok_response (JObj [(''data'', JArr [])])"]
  by (simp add: example_env_def ok_response_def empty_doc_def node_querySelectorAll_def
      nullish_def js_prop_def webtoons_page_def webtoons_nextCursor_def)

subsection \<open>The order of the chapters\<close>

lemma sort_chapters_sorted: "sorted (map (chapter_number env) (sort_chapters env xs))"
  by (simp add: sort_chapters_def)

lemma sort_chapters_stable:
  "filter (\<lambda>c. chapter_number env c = x) (sort_chapters env xs) =
   filter (\<lambda>c. chapter_number env c = x) xs"
  by (simp add: sort_chapters_def sort_key_stable)

lemma sorted_adjacent:
  "sorted (map f xs) \<Longrightarrow> Suc i < length xs \<Longrightarrow> f (xs ! i) \<le> f (xs ! Suc i)"
  using sorted_nth_mono [of "map f xs" i "Suc i"] by simp

lemma weebcentral_getChapters_Inr:
  assumes "weebcentral_getChapters env sid = (Inr cs, lg)"
  shows "\<exists>resp parse doc. http env 0 (GET (weebcentral_chapters_url sid)) = Inr resp \<and>
           parseHTML env = Some parse \<and> parse (data resp) = Some doc \<and>
           cs = sort_chapters env (rev (pushes (map (weebcentral_chapter env)
                  (querySelectorAll env doc ''div.flex.items-center''))))"
  using assms
  by (auto simp: weebcentral_getChapters_def Let_def split: sum.splits option.splits if_splits)

lemma webtoons_getChapters_Inr:
  assumes "webtoons_getChapters env sid = Some (Inr cs, k)"
  shows "\<exists>eps. webtoons_loop env sid 0 (JNum ''0'') [] = Some (Inr eps, k) \<and>
           webtoons_chapters_of env sid eps = Inr cs"
  using assms
  by (auto simp: webtoons_getChapters_def split: option.splits sum.splits prod.splits)

lemma webtoons_chapters_of_Inr:
  assumes "webtoons_chapters_of env sid eps = Inr cs"
  shows "\<exists>chapters. mapE (webtoons_chapter env sid) eps = Inr chapters \<and>
           cs = sort_chapters env chapters"
proof (cases "eps = []")
  case True
  then show ?thesis using assms by (simp add: webtoons_chapters_of_def sort_chapters_def)
next
  case False
  then show ?thesis using assms
    by (auto simp: webtoons_chapters_of_def split: sum.splits)
qed

lemma mangadex_getChapters_Inr:
  assumes "mangadex_getChapters env sid = Some (Inr cs, k)"
  shows "\<exists>collected. mangadex_loop env sid 0 0 [] = Some (Inr collected, k) \<and> cs = rev collected"
  using assms
  by (auto simp: mangadex_getChapters_def split: option.splits sum.splits prod.splits)

text \<open>
  C1 (as amended). A list returned by \<open>getChapters\<close> of WeebCentral or of Webtoons is in
  ascending order of \<open>parseFloat(chapter) || 0\<close>: each entry's number is at most the
  next entry's. Entries with the same number keep the order they had before the sort:
  the reversed order of the rows for WeebCentral, the order of the episodes for Webtoons.
  A list returned by \<open>getChapters\<close> of MangaDex is the list collected from the API in
  reverse; it is not sorted by chapter number.
\<close>

theorem getChapters_order:
  fixes envA :: "('e, 'n::{linorder,zero}) mango"
    and envB :: "('f, 'm::{linorder,zero}) mango"
    and envC :: "('g, 'h) mango"
  shows
  "(weebcentral_getChapters envA sA = (Inr csA, lg) \<longrightarrow>
      (\<forall>i. Suc i < length csA \<longrightarrow>
           chapter_number envA (csA ! i) \<le> chapter_number envA (csA ! Suc i)) \<and>
      (http envA 0 (GET (weebcentral_chapters_url sA)) = Inr resp \<and>
       parseHTML envA = Some parse \<and> parse (data resp) = Some doc \<longrightarrow>
         (\<forall>x. filter (\<lambda>c. chapter_number envA c = x) csA =
              filter (\<lambda>c. chapter_number envA c = x)
                (rev (pushes (map (weebcentral_chapter envA)
                   (querySelectorAll envA doc ''div.flex.items-center''))))))) \<and>
   (webtoons_getChapters envB sB = Some (Inr csB, k) \<longrightarrow>
      (\<forall>i. Suc i < length csB \<longrightarrow>
           chapter_number envB (csB ! i) \<le> chapter_number envB (csB ! Suc i)) \<and>
      (\<exists>eps chapters. webtoons_loop envB sB 0 (JNum ''0'') [] = Some (Inr eps, k) \<and>
           mapE (webtoons_chapter envB sB) eps = Inr chapters \<and>
           (\<forall>x. filter (\<lambda>c. chapter_number envB c = x) csB =
                filter (\<lambda>c. chapter_number envB c = x) chapters))) \<and>
   (mangadex_getChapters envC sC = Some (Inr csC, k') \<longrightarrow>
      (\<exists>collected. mangadex_loop envC sC 0 0 [] = Some (Inr collected, k') \<and> csC = rev collected))"
proof (intro conjI impI)
  assume a: "weebcentral_getChapters envA sA = (Inr csA, lg)"
  then obtain resp' parse' doc' where
      h: "http envA 0 (GET (weebcentral_chapters_url sA)) = Inr resp'"
        "parseHTML envA = Some parse'" "parse' (data resp') = Some doc'"
      and cs: "csA = sort_chapters envA (rev (pushes (map (weebcentral_chapter envA)
                  (querySelectorAll envA doc' ''div.flex.items-center''))))"
    using weebcentral_getChapters_Inr by blast
  show "\<forall>i. Suc i < length csA \<longrightarrow>
           chapter_number envA (csA ! i) \<le> chapter_number envA (csA ! Suc i)"
    unfolding cs using sorted_adjacent [OF sort_chapters_sorted] by blast
  assume "http envA 0 (GET (weebcentral_chapters_url sA)) = Inr resp \<and>
       parseHTML envA = Some parse \<and> parse (data resp) = Some doc"
  then have "doc = doc'" using h by simp
  then show "\<forall>x. filter (\<lambda>c. chapter_number envA c = x) csA =
              filter (\<lambda>c. chapter_number envA c = x)
                (rev (pushes (map (weebcentral_chapter envA)
                   (querySelectorAll envA doc ''div.flex.items-center''))))"
    unfolding cs by (simp add: sort_chapters_stable)
next
  assume b: "webtoons_getChapters envB sB = Some (Inr csB, k)"
  then obtain eps where eps: "webtoons_loop envB sB 0 (JNum ''0'') [] = Some (Inr eps, k)"
      "webtoons_chapters_of envB sB eps = Inr csB"
    using webtoons_getChapters_Inr by blast
  then obtain chapters where ch: "mapE (webtoons_chapter envB sB) eps = Inr chapters"
      "csB = sort_chapters envB chapters"
    using webtoons_chapters_of_Inr by blast
  show "\<forall>i. Suc i < length csB \<longrightarrow>
           chapter_number envB (csB ! i) \<le> chapter_number envB (csB ! Suc i)"
    unfolding ch(2) using sorted_adjacent [OF sort_chapters_sorted] by blast
  have "\<forall>x. filter (\<lambda>c. chapter_number envB c = x) csB =
                filter (\<lambda>c. chapter_number envB c = x) chapters"
    unfolding ch(2) by (simp add: sort_chapters_stable)
  then show "\<exists>eps chapters. webtoons_loop envB sB 0 (JNum ''0'') [] = Some (Inr eps, k) \<and>
           mapE (webtoons_chapter envB sB) eps = Inr chapters \<and>
           (\<forall>x. filter (\<lambda>c. chapter_number envB c = x) csB =
                filter (\<lambda>c. chapter_number envB c = x) chapters)"
    using eps(1) ch(1) by blast
next
  assume "mangadex_getChapters envC sC = Some (Inr csC, k')"
  then show "\<exists>collected. mangadex_loop envC sC 0 0 [] = Some (Inr collected, k') \<and> csC = rev collected"
    by (rule mangadex_getChapters_Inr)
qed

lemma map_sum_length_Inr:
  "map_sum id length r = Inr n \<Longrightarrow> \<exists>cs. r = Inr cs \<and> length cs = n"
  by (cases r) auto

theorem getChapters_order_witness:
  "(\<exists>cs lg. weebcentral_getChapters (example_env (\<lambda>n. JStr ''<html></html>'') weebcentral_two_rows)
               ''series-123'' = (Inr cs, lg) \<and> length cs = 2 \<and>
        chapter_number (example_env (\<lambda>n. JStr ''<html></html>'') weebcentral_two_rows) (cs ! 0)
          \<le> chapter_number (example_env (\<lambda>n. JStr ''<html></html>'') weebcentral_two_rows) (cs ! 1)) \<and>
   (\<exists>cs k. webtoons_getChapters (example_env webtoons_two_pages empty_doc) ''6795'' = Some (Inr cs, k) \<and>
        length cs = 2 \<and>
        chapter_number (example_env webtoons_two_pages empty_doc) (cs ! 0)
          \<le> chapter_number (example_env webtoons_two_pages empty_doc) (cs ! 1))"
proof -
  let ?EA = "example_env (\<lambda>n. JStr ''<html></html>'') weebcentral_two_rows"
  let ?EB = "example_env webtoons_two_pages empty_doc"
  have "map_sum id length (fst (weebcentral_getChapters ?EA ''series-123'')) = Inr 2"
    by code_simp
  then obtain csA lgA where a: "weebcentral_getChapters ?EA ''series-123'' = (Inr csA, lgA)"
      "length csA = 2"
    using map_sum_length_Inr by (cases "weebcentral_getChapters ?EA ''series-123''") fastforce
  have "map_option (\<lambda>(r, k). map_sum id length r) (webtoons_getChapters ?EB ''6795'') = Some (Inr 2)"
    by code_simp
  then obtain csB kB where b: "webtoons_getChapters ?EB ''6795'' = Some (Inr csB, kB)"
      "length csB = 2"
    using map_sum_length_Inr by (cases "webtoons_getChapters ?EB ''6795''") fastforce+
  note order = getChapters_order [where envA = ?EA and sA = "''series-123''" and csA = csA
      and lg = lgA and resp = "ok_response JNull" and parse = "\<lambda>html. None" and doc = empty_doc
      and envB = ?EB and sB = "''6795''" and csB = csB and k = kB
      and envC = ?EB and sC = "[]" and csC = "[]" and k' = 0]
  have "\<forall>i. Suc i < length csA \<longrightarrow> chapter_number ?EA (csA ! i) \<le> chapter_number ?EA (csA ! Suc i)"
    using order a(1) by blast
  then have "chapter_number ?EA (csA ! 0) \<le> chapter_number ?EA (csA ! 1)"
    using a(2) by simp
  moreover have "\<forall>i. Suc i < length csB \<longrightarrow> chapter_number ?EB (csB ! i) \<le> chapter_number ?EB (csB ! Suc i)"
    using order b(1) by blast
  then have "chapter_number ?EB (csB ! 0) \<le> chapter_number ?EB (csB ! 1)"
    using b(2) by simp
  ultimately show ?thesis using a b by blast
qed

text \<open>
  C1 as stated fails for MangaDex: for a feed in the order the request asks for, with
  chapter numbers that start again in the second volume, the reversed list has the
  numbers 1, 2, 1.
\<close>

theorem mangadex_getChapters_order_counterexample:
  "chapter_numbers (example_env mangadex_two_volumes empty_doc)
     (mangadex_getChapters (example_env mangadex_two_volumes empty_doc) ''manga-123'') = [1, 2, 1] \<and>
   \<not> sorted (chapter_numbers (example_env mangadex_two_volumes empty_doc)
     (mangadex_getChapters (example_env mangadex_two_volumes empty_doc) ''manga-123''))"
proof -
  have "chapter_numbers (example_env mangadex_two_volumes empty_doc)
     (mangadex_getChapters (example_env mangadex_two_volumes empty_doc) ''manga-123'') = [1, 2, 1]"
    by code_simp
  then show ?thesis by simp
qed

subsection \<open>The entries that search returns\<close>

lemma mapE_Inr: "mapE f xs = Inr ys \<Longrightarrow> list_all2 (\<lambda>x y. f x = Inr y) xs ys"
proof (induction xs arbitrary: ys)
  case Nil
  then show ?case by simp
next
  case (Cons x xs)
  then show ?case by (auto split: sum.splits)
qed


lemma mapE_Inr_set:
  assumes "mapE f xs = Inr ys" and "y \<in> set ys"
  shows "\<exists>x \<in> set xs. f x = Inr y"
proof -
  have "list_all2 (\<lambda>x y. f x = Inr y) xs ys" using assms(1) by (rule mapE_Inr)
  then show ?thesis using assms(2)
    by (induction xs ys rule: list_all2_induct) auto
qed

















subsection \<open>Cover URLs\<close>

lemma strip_proxy_host:
  "js_replace_first ''http://localhost:8080'' '''' (PROXY_BASE_URL @ rest) = ''/api/proxy/resource'' @ rest"
  by (simp add: PROXY_BASE_URL_def js_startsWith_def)

lemma constructProxyUrl_prefix:
  "\<exists>rest. constructProxyUrl u opts = PROXY_BASE_URL @ ''?url='' @ rest"
  using constructProxyUrl_eq by blast

lemma mangadex_constructProxyUrl_prefix:
  "\<exists>rest. mangadex_constructProxyUrl u r = PROXY_BASE_URL @ ''?url='' @ rest"
  using mangadex_constructProxyUrl_eq by blast

lemma stripped_proxy_url:
  "js_startsWith (js_replace_first ''http://localhost:8080'' '''' (constructProxyUrl u opts))
     ''/api/proxy/resource?url=''"
proof -
  obtain rest where "constructProxyUrl u opts = PROXY_BASE_URL @ ''?url='' @ rest"
    using constructProxyUrl_prefix by blast
  then show ?thesis by (simp add: strip_proxy_host js_startsWith_def)
qed

lemma mangadex_stripped_proxy_url:
  "js_startsWith (js_replace_first ''http://localhost:8080'' '''' (mangadex_constructProxyUrl u r))
     ''/api/proxy/resource?url=''"
proof -
  obtain rest where "mangadex_constructProxyUrl u r = PROXY_BASE_URL @ ''?url='' @ rest"
    using mangadex_constructProxyUrl_prefix by blast
  then show ?thesis by (simp add: strip_proxy_host js_startsWith_def)
qed

lemma webtoons_entry_cover:
  assumes "webtoons_search_entry item = Inr r"
  shows "cover_url r = [] \<or> js_startsWith (cover_url r) ''/api/proxy/resource?url='' \<or>
         (\<not> js_includes (cover_url r) ''webtoon-phinf.pstatic.net'' \<and>
          (js_startsWith (cover_url r) ''http://'' \<or> js_startsWith (cover_url r) ''https://''))"
proof -
  have inc: "js_includes (THUMBNAIL_URL @ rest) ''webtoon-phinf.pstatic.net''" for rest
    by (simp add: THUMBNAIL_URL_def js_startsWith_def)
  show ?thesis
    using assms stripped_proxy_url inc
    by (auto simp: webtoons_search_entry_def Let_def split: sum.splits if_splits json.splits)
qed

lemma mangadex_entry_cover:
  assumes "mangadex_search_entry cam m = Inr r"
  shows "cover_url r = [] \<or> js_startsWith (cover_url r) ''/api/proxy/resource?url=''"
  using assms mangadex_stripped_proxy_url
  by (auto simp: mangadex_search_entry_def Let_def split: sum.splits if_splits)

lemma webtoons_search_member:
  assumes "fst (webtoons_search env q) = Inr rs" and "r \<in> set rs"
  shows "\<exists>item. webtoons_search_entry item = Inr r"
proof -
  have "webtoons_search_try env q = Inr rs"
    using assms(1) by (auto simp: webtoons_search_def split: sum.splits)
  then have "rs = [] \<or> (\<exists>kept. mapE webtoons_search_entry kept = Inr rs)"
    by (auto simp: webtoons_search_try_def split: sum.splits if_splits json.splits)
  then obtain kept where k: "mapE webtoons_search_entry kept = Inr rs" using assms(2) by auto
  show ?thesis using mapE_Inr_set [OF k assms(2)] by blast
qed

lemma mangadex_search_member:
  assumes "fst (mangadex_search env q) = Inr rs" and "r \<in> set rs"
  shows "\<exists>cam m. mangadex_search_entry cam m = Inr r"
proof -
  have "rs = [] \<or> (\<exists>cam kept. mapE (mangadex_search_entry cam) kept = Inr rs)"
    using assms(1)
    by (auto simp: mangadex_search_def Let_def split: sum.splits if_splits)
  then obtain cam kept where k: "mapE (mangadex_search_entry cam) kept = Inr rs"
    using assms(2) by auto
  show ?thesis using mapE_Inr_set [OF k assms(2)] by blast
qed

lemma webtoons_entry_cover_cases:
  assumes r: "webtoons_search_entry item = Inr r"
  shows "(\<not> truthy (js_or (js_prop item ''thumbnailImage2'') (js_prop item ''thumbnailMobile'')) \<longrightarrow>
            cover_url r = []) \<and>
         (\<forall>t. js_or (js_prop item ''thumbnailImage2'') (js_prop item ''thumbnailMobile'') = JStr t \<and> t \<noteq> [] \<and>
              (js_includes t ''webtoon-phinf.pstatic.net'' \<or>
               \<not> (js_startsWith t ''http://'' \<or> js_startsWith t ''https://'')) \<longrightarrow>
            js_startsWith (cover_url r) ''/api/proxy/resource?url='') \<and>
         (\<forall>t. js_or (js_prop item ''thumbnailImage2'') (js_prop item ''thumbnailMobile'') = JStr t \<and>
              (js_startsWith t ''http://'' \<or> js_startsWith t ''https://'') \<and>
              \<not> js_includes t ''webtoon-phinf.pstatic.net'' \<longrightarrow>
            cover_url r = t)"
proof -
  have inc: "js_includes (THUMBNAIL_URL @ rest) ''webtoon-phinf.pstatic.net''" for rest
    by (simp add: THUMBNAIL_URL_def js_startsWith_def)
  have ne: "THUMBNAIL_URL @ rest \<noteq> []" for rest
    by (simp add: THUMBNAIL_URL_def)
  show ?thesis
    using r stripped_proxy_url inc ne
    by (auto simp: webtoons_search_entry_def Let_def js_startsWith_def split: sum.splits if_splits json.splits)
qed

text \<open>
  C10 (as amended). A cover URL that \<open>search\<close> of Webtoons or of MangaDex sends through
  the proxy is relative to the host: the plugin removes \<open>http://localhost:8080\<close> from
  the front of the proxy URL, which leaves \<open>/api/proxy/resource?url=...\<close>. Every
  \<open>cover_url\<close> of MangaDex is empty or starts so. Webtoons proxies a thumbnail that is a
  path or that names the image CDN \<open>webtoon-phinf.pstatic.net\<close>; a thumbnail that is an
  absolute \<open>http(s)\<close> URL not naming the CDN is returned as it is, absolute; without a
  thumbnail the \<open>cover_url\<close> is empty.
\<close>

theorem cover_url_host_relative:
  "js_replace_first ''http://localhost:8080'' '''' (PROXY_BASE_URL @ rest) =
     ''/api/proxy/resource'' @ rest \<and>
   (fst (mangadex_search envC q) = Inr rsC \<longrightarrow>
      (\<forall>r \<in> set rsC. cover_url r = [] \<or> js_startsWith (cover_url r) ''/api/proxy/resource?url='')) \<and>
   (fst (webtoons_search envB q') = Inr rsB \<longrightarrow>
      (\<forall>r \<in> set rsB. cover_url r = [] \<or> js_startsWith (cover_url r) ''/api/proxy/resource?url='' \<or>
         (\<not> js_includes (cover_url r) ''webtoon-phinf.pstatic.net'' \<and>
          (js_startsWith (cover_url r) ''http://'' \<or> js_startsWith (cover_url r) ''https://'')))) \<and>
   (webtoons_search_entry item = Inr res \<longrightarrow>
      (\<not> truthy (js_or (js_prop item ''thumbnailImage2'') (js_prop item ''thumbnailMobile'')) \<longrightarrow>
         cover_url res = []) \<and>
      (\<forall>t. js_or (js_prop item ''thumbnailImage2'') (js_prop item ''thumbnailMobile'') = JStr t \<and> t \<noteq> [] \<and>
           (js_includes t ''webtoon-phinf.pstatic.net'' \<or>
            \<not> (js_startsWith t ''http://'' \<or> js_startsWith t ''https://'')) \<longrightarrow>
         js_startsWith (cover_url res) ''/api/proxy/resource?url='') \<and>
      (\<forall>t. js_or (js_prop item ''thumbnailImage2'') (js_prop item ''thumbnailMobile'') = JStr t \<and>
           (js_startsWith t ''http://'' \<or> js_startsWith t ''https://'') \<and>
           \<not> js_includes t ''webtoon-phinf.pstatic.net'' \<longrightarrow>
         cover_url res = t))"
proof -
  have strip: "js_replace_first ''http://localhost:8080'' '''' (PROXY_BASE_URL @ rest) =
     ''/api/proxy/resource'' @ rest"
    by (rule strip_proxy_host)
  have md: "fst (mangadex_search envC q) = Inr rsC \<longrightarrow>
      (\<forall>r \<in> set rsC. cover_url r = [] \<or> js_startsWith (cover_url r) ''/api/proxy/resource?url='')"
  proof (intro impI ballI)
    fix r assume "fst (mangadex_search envC q) = Inr rsC" "r \<in> set rsC"
    then obtain cam m where "mangadex_search_entry cam m = Inr r"
      using mangadex_search_member by blast
    then show "cover_url r = [] \<or> js_startsWith (cover_url r) ''/api/proxy/resource?url=''"
      by (rule mangadex_entry_cover)
  qed
  have wt: "fst (webtoons_search envB q') = Inr rsB \<longrightarrow>
      (\<forall>r \<in> set rsB. cover_url r = [] \<or> js_startsWith (cover_url r) ''/api/proxy/resource?url='' \<or>
         (\<not> js_includes (cover_url r) ''webtoon-phinf.pstatic.net'' \<and>
          (js_startsWith (cover_url r) ''http://'' \<or> js_startsWith (cover_url r) ''https://'')))"
  proof (intro impI ballI)
    fix r assume "fst (webtoons_search envB q') = Inr rsB" "r \<in> set rsB"
    then obtain item where "webtoons_search_entry item = Inr r"
      using webtoons_search_member by blast
    then show "cover_url r = [] \<or> js_startsWith (cover_url r) ''/api/proxy/resource?url='' \<or>
         (\<not> js_includes (cover_url r) ''webtoon-phinf.pstatic.net'' \<and>
          (js_startsWith (cover_url r) ''http://'' \<or> js_startsWith (cover_url r) ''https://''))"
      by (rule webtoons_entry_cover)
  qed
  have entry: "webtoons_search_entry item = Inr res \<longrightarrow>
      (\<not> truthy (js_or (js_prop item ''thumbnailImage2'') (js_prop item ''thumbnailMobile'')) \<longrightarrow>
         cover_url res = []) \<and>
      (\<forall>t. js_or (js_prop item ''thumbnailImage2'') (js_prop item ''thumbnailMobile'') = JStr t \<and> t \<noteq> [] \<and>
           (js_includes t ''webtoon-phinf.pstatic.net'' \<or>
            \<not> (js_startsWith t ''http://'' \<or> js_startsWith t ''https://'')) \<longrightarrow>
         js_startsWith (cover_url res) ''/api/proxy/resource?url='') \<and>
      (\<forall>t. js_or (js_prop item ''thumbnailImage2'') (js_prop item ''thumbnailMobile'') = JStr t \<and>
           (js_startsWith t ''http://'' \<or> js_startsWith t ''https://'') \<and>
           \<not> js_includes t ''webtoon-phinf.pstatic.net'' \<longrightarrow>
         cover_url res = t)"
    by (rule impI) (rule webtoons_entry_cover_cases)
  show ?thesis
    by (rule conjI [OF strip conjI [OF md conjI [OF wt entry]]])
qed

theorem cover_url_host_relative_witness:
  "(\<exists>rs. fst (webtoons_search (example_env (webtoons_search_body webtoons_three_items) empty_doc) ''un'')
           = Inr rs \<and>
      map cover_url rs =
        [''/api/proxy/resource?url=https%3A%2F%2Fwebtoon-phinf.pstatic.net%2Fthumbnail%2Fa.jpg&referer=https%3A%2F%2Fwww.webtoons.com%2F'', []] \<and>
      (\<forall>r \<in> set rs. cover_url r = [] \<or> js_startsWith (cover_url r) ''/api/proxy/resource?url='' \<or>
         (\<not> js_includes (cover_url r) ''webtoon-phinf.pstatic.net'' \<and>
          (js_startsWith (cover_url r) ''http://'' \<or> js_startsWith (cover_url r) ''https://'')))) \<and>
   (\<exists>rs. fst (mangadex_search (example_env mangadex_search_body empty_doc) ''one'') = Inr rs \<and>
      map cover_url rs =
        [''/api/proxy/resource?url=https%3A%2F%2Fuploads.mangadex.org%2Fcovers%2Fm1%2Fc.jpg.256.jpg&referer=https%3A%2F%2Fmangadex.org%2F''] \<and>
      (\<forall>r \<in> set rs. cover_url r = [] \<or> js_startsWith (cover_url r) ''/api/proxy/resource?url=''))"
proof -
  let ?EB = "example_env (webtoons_search_body webtoons_three_items) empty_doc"
  let ?EC = "example_env mangadex_search_body empty_doc"
  have "map_sum id (map cover_url) (fst (webtoons_search ?EB ''un'')) =
      Inr [''/api/proxy/resource?url=https%3A%2F%2Fwebtoon-phinf.pstatic.net%2Fthumbnail%2Fa.jpg&referer=https%3A%2F%2Fwww.webtoons.com%2F'', []]"
    by code_simp
  then obtain rsB where b: "fst (webtoons_search ?EB ''un'') = Inr rsB"
      "map cover_url rsB =
        [''/api/proxy/resource?url=https%3A%2F%2Fwebtoon-phinf.pstatic.net%2Fthumbnail%2Fa.jpg&referer=https%3A%2F%2Fwww.webtoons.com%2F'', []]"
    by (cases "fst (webtoons_search ?EB ''un'')") auto
  have "map_sum id (map cover_url) (fst (mangadex_search ?EC ''one'')) =
      Inr [''/api/proxy/resource?url=https%3A%2F%2Fuploads.mangadex.org%2Fcovers%2Fm1%2Fc.jpg.256.jpg&referer=https%3A%2F%2Fmangadex.org%2F'']"
    by code_simp
  then obtain rsC where c: "fst (mangadex_search ?EC ''one'') = Inr rsC"
      "map cover_url rsC =
        [''/api/proxy/resource?url=https%3A%2F%2Fuploads.mangadex.org%2Fcovers%2Fm1%2Fc.jpg.256.jpg&referer=https%3A%2F%2Fmangadex.org%2F'']"
    by (cases "fst (mangadex_search ?EC ''one'')") auto
  note rel = cover_url_host_relative [where envB = ?EB and q' = "''un''" and rsB = rsB
      and envC = ?EC and q = "''one''" and rsC = rsC and rest = "[]"]
  have pB: "\<forall>r \<in> set rsB. cover_url r = [] \<or> js_startsWith (cover_url r) ''/api/proxy/resource?url='' \<or>
         (\<not> js_includes (cover_url r) ''webtoon-phinf.pstatic.net'' \<and>
          (js_startsWith (cover_url r) ''http://'' \<or> js_startsWith (cover_url r) ''https://''))"
    using rel [THEN conjunct2, THEN conjunct2, THEN conjunct1] b(1) by (rule mp)
  have pC: "\<forall>r \<in> set rsC. cover_url r = [] \<or> js_startsWith (cover_url r) ''/api/proxy/resource?url=''"
    using rel [THEN conjunct2, THEN conjunct1] c(1) by (rule mp)
  have wB: "fst (webtoons_search ?EB ''un'') = Inr rsB \<and>
      map cover_url rsB =
        [''/api/proxy/resource?url=https%3A%2F%2Fwebtoon-phinf.pstatic.net%2Fthumbnail%2Fa.jpg&referer=https%3A%2F%2Fwww.webtoons.com%2F'', []] \<and>
      (\<forall>r \<in> set rsB. cover_url r = [] \<or> js_startsWith (cover_url r) ''/api/proxy/resource?url='' \<or>
         (\<not> js_includes (cover_url r) ''webtoon-phinf.pstatic.net'' \<and>
          (js_startsWith (cover_url r) ''http://'' \<or> js_startsWith (cover_url r) ''https://'')))"
    by (rule conjI [OF b(1) conjI [OF b(2) pB]])
  have wC: "fst (mangadex_search ?EC ''one'') = Inr rsC \<and>
      map cover_url rsC =
        [''/api/proxy/resource?url=https%3A%2F%2Fuploads.mangadex.org%2Fcovers%2Fm1%2Fc.jpg.256.jpg&referer=https%3A%2F%2Fmangadex.org%2F''] \<and>
      (\<forall>r \<in> set rsC. cover_url r = [] \<or> js_startsWith (cover_url r) ''/api/proxy/resource?url='')"
    by (rule conjI [OF c(1) conjI [OF c(2) pC]])
  from wB have eB: "\<exists>rs. fst (webtoons_search ?EB ''un'') = Inr rs \<and>
      map cover_url rs =
        [''/api/proxy/resource?url=https%3A%2F%2Fwebtoon-phinf.pstatic.net%2Fthumbnail%2Fa.jpg&referer=https%3A%2F%2Fwww.webtoons.com%2F'', []] \<and>
      (\<forall>r \<in> set rs. cover_url r = [] \<or> js_startsWith (cover_url r) ''/api/proxy/resource?url='' \<or>
         (\<not> js_includes (cover_url r) ''webtoon-phinf.pstatic.net'' \<and>
          (js_startsWith (cover_url r) ''http://'' \<or> js_startsWith (cover_url r) ''https://'')))"
    by (rule exI [of _ rsB])
  from wC have eC: "\<exists>rs. fst (mangadex_search ?EC ''one'') = Inr rs \<and>
      map cover_url rs =
        [''/api/proxy/resource?url=https%3A%2F%2Fuploads.mangadex.org%2Fcovers%2Fm1%2Fc.jpg.256.jpg&referer=https%3A%2F%2Fmangadex.org%2F''] \<and>
      (\<forall>r \<in> set rs. cover_url r = [] \<or> js_startsWith (cover_url r) ''/api/proxy/resource?url='')"
    by (rule exI [of _ rsC])
  from eB eC show ?thesis by (rule conjI)
qed

text \<open>
  C10 as stated fails for Webtoons: a thumbnail on another host is returned as an
  absolute URL, neither proxied nor relative.
\<close>

theorem webtoons_cover_url_absolute_counterexample:
  "fst (webtoons_search (example_env (webtoons_search_body webtoons_external_cover_item) empty_doc) ''se'') =
     Inr [\<lparr>title = JStr ''Seven'', cover_url = ''https://example.com/a.jpg'', sr_identifier = JStr ''7''\<rparr>]"
  by code_simp

end
